theory Spec2Isabelle
  imports Main
begin

section \<open>visualizar\_tabela.py: the Parquet client data editor\<close>

text \<open>
  The program is one Streamlit script. Streamlit runs it from its first line to its last
  on every user action (one \<^emph>\<open>pass\<close>); the values the widgets return during a pass are
  the user's inputs of that pass. The embedding follows the script line by line:
  module-level names live in a namespace, every statement that can raise does so as a
  value, the S3 bucket, the local file system and the \<open>st.cache_data\<close> store are
  explicit state, and every call made on the S3 client is logged in order.
\<close>

subsection \<open>Formatting: \<open>str\<close> of an integer and \<open>strftime('%Y%m%d')\<close>\<close>

definition digit_char :: "nat \<Rightarrow> char" where
  "digit_char d = ''0123456789'' ! d"

fun str_nat :: "nat \<Rightarrow> string" where
  "str_nat n =
     (if n < 10 then [digit_char n] else str_nat (n div 10) @ [digit_char (n mod 10)])"

declare str_nat.simps [simp del]

text \<open>Python's \<open>str(i)\<close> for an \<open>int\<close>, as an f-string field renders it.\<close>

definition str_int :: "int \<Rightarrow> string" where
  "str_int i = (if i < 0 then CHR ''-'' # str_nat (nat (- i)) else str_nat (nat i))"

text \<open>\<open>'%04d'\<close> and \<open>'%02d'\<close>: decimal digits, filled with zeros on the left.\<close>

definition zero_pad :: "nat \<Rightarrow> nat \<Rightarrow> string" where
  "zero_pad w n = replicate (w - length (str_nat n)) CHR ''0'' @ str_nat n"

text \<open>
  The reading of \<open>datetime.now()\<close>; only the calendar date reaches the program.
  \<open>valid_date\<close> is the range a \<open>datetime\<close> can hold (years 1 to 9999).
\<close>

record date =
  year :: nat
  month :: nat
  day :: nat

definition valid_date :: "date \<Rightarrow> bool" where
  "valid_date d =
     (1 \<le> year d \<and> year d \<le> 9999 \<and> 1 \<le> month d \<and> month d \<le> 12 \<and> 1 \<le> day d \<and> day d \<le> 31)"

definition strftime_Ymd :: "date \<Rightarrow> string" where
  "strftime_Ymd d = zero_pad 4 (year d) @ zero_pad 2 (month d) @ zero_pad 2 (day d)"

subsection \<open>Tables\<close>

text \<open>
  A \<open>pandas.DataFrame\<close>: named columns and rows of cells; \<open>len(df)\<close> is the number
  of rows. \<open>df.copy()\<close> builds a new object with the same contents, which in a model
  of values is the same table.
\<close>

datatype cell = IntCell int | StrCell string | NullCell

record dataframe =
  columns :: "string list"
  rows :: "cell list list"

definition len :: "dataframe \<Rightarrow> nat" where
  "len df = length (rows df)"

definition df_copy :: "dataframe \<Rightarrow> dataframe" where
  "df_copy df = \<lparr>columns = columns df, rows = rows df\<rparr>"

type_synonym bytes = string

subsection \<open>Exceptions, values, messages\<close>

text \<open>
  The subclasses of \<open>Exception\<close> the program can meet: Python's own \<open>NameError\<close>
  and \<open>TypeError\<close>, the S3 client's errors, the Parquet codec's and the file system's.
  \<open>str(e)\<close> is the text a message shows.
\<close>

datatype exception =
    NameError string
  | TypeError string
  | ClientError string
  | ParquetError string
  | OSError string

fun str_exception :: "exception \<Rightarrow> string" where
  "str_exception (NameError n) = ''name '' @ [CHR 0x27] @ n @ [CHR 0x27] @ '' is not defined''"
| "str_exception (TypeError m) = m"
| "str_exception (ClientError m) = m"
| "str_exception (ParquetError m) = m"
| "str_exception (OSError m) = m"

text \<open>
  What a statement can raise. \<open>StopException\<close> is what \<open>st.stop()\<close> raises;
  Streamlit derives it from \<open>BaseException\<close> and not from \<open>Exception\<close>, so an
  \<open>except Exception\<close> clause lets it through.
\<close>

datatype exn = Exception exception | StopException

datatype pyval =
    Str string
  | Frame dataframe
  | Upload bytes
  | NoneVal
  | Obj

datatype message =
    St_success string
  | St_info string
  | St_error string
  | Sidebar_success string
  | Sidebar_info string

datatype s3_call =
    GetObject string string
  | PutObject string string bytes
  | CopyObject string string string string

subsection \<open>State of a pass and its surroundings\<close>

text \<open>
  \<open>globals\<close> is the module namespace of the running script; \<open>messages\<close> the
  messages rendered so far; \<open>s3_store\<close> the objects of S3 by (bucket, key);
  \<open>s3_log\<close> every call made on the client, oldest first, with whether it succeeded;
  \<open>local_fs\<close> the files of the local disk by path; \<open>cache\<close> the entries of
  \<open>st.cache_data\<close> for \<open>read_from_s3\<close>, by its arguments (bucket, key).
\<close>

record state =
  globals :: "string \<rightharpoonup> pyval"
  messages :: "message list"
  s3_store :: "string \<times> string \<rightharpoonup> bytes"
  s3_log :: "(s3_call \<times> bool) list"
  local_fs :: "string \<rightharpoonup> bytes"
  cache :: "string \<times> string \<rightharpoonup> dataframe"

text \<open>
  What the program consumes as opaque capabilities, for one pass: the Parquet codec of
  pandas (either direction may raise), and which calls on S3 and which local writes fail
  for reasons outside the program (network, credentials, permissions).
\<close>

record env =
  to_parquet :: "dataframe \<Rightarrow> exception + bytes"
  read_parquet :: "bytes \<Rightarrow> exception + dataframe"
  s3_fault :: "s3_call \<Rightarrow> exception option"
  fs_fault :: "string \<Rightarrow> exception option"

text \<open>
  The values the widgets return in one pass. \<open>editor_api\<close> says which of the two
  grid widgets the installed Streamlit offers; \<open>grid\<close> is the grid widget itself: the
  table it returns for the table it is given (the user's pending edits applied).
\<close>

datatype editor_api = DataEditor | ExperimentalDataEditor

record ui =
  mode :: string
  uploaded :: "bytes option"
  editor_api :: editor_api
  grid :: "dataframe \<Rightarrow> dataframe"
  confirm_code :: string
  confirm_clicked :: bool
  save_option :: string
  save_s3_clicked :: bool
  save_path :: string
  save_local_clicked :: bool

record secrets =
  BUCKET_NAME_secret :: string
  PARQUET_KEY_secret :: string

subsection \<open>Statements that may raise\<close>

type_synonym 'a prog = "state \<Rightarrow> (exn + 'a) \<times> state"

definition ret :: "'a \<Rightarrow> 'a prog" where
  "ret v s = (Inr v, s)"

definition raise :: "exn \<Rightarrow> 'a prog" where
  "raise e s = (Inl e, s)"

definition seq :: "'a prog \<Rightarrow> ('a \<Rightarrow> 'b prog) \<Rightarrow> 'b prog" where
  "seq m f s = (case m s of (Inl e, s') \<Rightarrow> (Inl e, s') | (Inr v, s') \<Rightarrow> f v s')"

definition lift :: "exception + 'a \<Rightarrow> 'a prog" where
  "lift r s = (case r of Inl e \<Rightarrow> (Inl (Exception e), s) | Inr v \<Rightarrow> (Inr v, s))"

text \<open>\<open>try: body except Exception as e: handler(e)\<close>.\<close>

definition try_except :: "'a prog \<Rightarrow> (exception \<Rightarrow> 'a prog) \<Rightarrow> 'a prog" where
  "try_except body handler s =
     (case body s of
        (Inl (Exception e), s') \<Rightarrow> handler e s'
      | (Inl StopException, s') \<Rightarrow> (Inl StopException, s')
      | (Inr v, s') \<Rightarrow> (Inr v, s'))"

definition emit :: "message \<Rightarrow> unit prog" where
  "emit m s = (Inr (), s\<lparr>messages := messages s @ [m]\<rparr>)"

definition st_stop :: "'a prog" where
  "st_stop = raise StopException"

text \<open>Reading and binding a module-level name.\<close>

definition load_name :: "string \<Rightarrow> pyval prog" where
  "load_name n s =
     (case globals s n of None \<Rightarrow> (Inl (Exception (NameError n)), s) | Some v \<Rightarrow> (Inr v, s))"

definition store_name :: "string \<Rightarrow> pyval \<Rightarrow> unit prog" where
  "store_name n v s = (Inr (), s\<lparr>globals := (globals s)(n \<mapsto> v)\<rparr>)"

text \<open>
  A name read where the program goes on to use a string (an S3 argument, an f-string,
  a comparison with a literal) or a table. The script binds these names to values of the
  right kind only; for any other value the use is taken to raise. The names of the
  modules, of the client and of the functions (\<open>st\<close>, \<open>pd\<close>, \<open>datetime\<close>,
  \<open>s3\<close>, \<open>read_from_s3\<close>, ...) are bound before any use and never rebound; the
  model enters them in the namespace and does not read them back.
\<close>

definition load_str :: "string \<Rightarrow> string prog" where
  "load_str n =
     seq (load_name n) (\<lambda>v. case v of Str x \<Rightarrow> ret x | _ \<Rightarrow> raise (Exception (TypeError n)))"

definition load_frame :: "string \<Rightarrow> dataframe prog" where
  "load_frame n =
     seq (load_name n) (\<lambda>v. case v of Frame t \<Rightarrow> ret t | _ \<Rightarrow> raise (Exception (TypeError n)))"

subsection \<open>The S3 client\<close>

definition log_call :: "s3_call \<Rightarrow> bool \<Rightarrow> state \<Rightarrow> state" where
  "log_call c ok s = s\<lparr>s3_log := s3_log s @ [(c, ok)]\<rparr>"

definition get_object :: "env \<Rightarrow> string \<Rightarrow> string \<Rightarrow> bytes prog" where
  "get_object x b k s =
     (case s3_fault x (GetObject b k) of
        Some e \<Rightarrow> (Inl (Exception e), log_call (GetObject b k) False s)
      | None \<Rightarrow>
          (case s3_store s (b, k) of
             None \<Rightarrow> (Inl (Exception (ClientError ''NoSuchKey'')), log_call (GetObject b k) False s)
           | Some body \<Rightarrow> (Inr body, log_call (GetObject b k) True s)))"

definition put_object :: "env \<Rightarrow> string \<Rightarrow> string \<Rightarrow> bytes \<Rightarrow> unit prog" where
  "put_object x b k body s =
     (case s3_fault x (PutObject b k body) of
        Some e \<Rightarrow> (Inl (Exception e), log_call (PutObject b k body) False s)
      | None \<Rightarrow>
          (Inr (), log_call (PutObject b k body) True
                     (s\<lparr>s3_store := (s3_store s)((b, k) \<mapsto> body)\<rparr>)))"

text \<open>
  \<open>s3.copy_object(Bucket=dst_b, CopySource={'Bucket': src_b, 'Key': src_k}, Key=dst_k)\<close>.
\<close>

definition copy_object :: "env \<Rightarrow> string \<Rightarrow> string \<Rightarrow> string \<Rightarrow> string \<Rightarrow> unit prog" where
  "copy_object x dst_b src_b src_k dst_k s =
     (case s3_fault x (CopyObject dst_b src_b src_k dst_k) of
        Some e \<Rightarrow> (Inl (Exception e), log_call (CopyObject dst_b src_b src_k dst_k) False s)
      | None \<Rightarrow>
          (case s3_store s (src_b, src_k) of
             None \<Rightarrow>
               (Inl (Exception (ClientError ''NoSuchKey'')),
                log_call (CopyObject dst_b src_b src_k dst_k) False s)
           | Some body \<Rightarrow>
               (Inr (), log_call (CopyObject dst_b src_b src_k dst_k) True
                          (s\<lparr>s3_store := (s3_store s)((dst_b, dst_k) \<mapsto> body)\<rparr>))))"

subsection \<open>\<open>read_from_s3\<close> and \<open>write_to_s3\<close>\<close>

definition read_from_s3_body :: "env \<Rightarrow> string \<Rightarrow> string \<Rightarrow> dataframe prog" where
  "read_from_s3_body x b k =
     seq (get_object x b k) (\<lambda>body. lift (read_parquet x body))"

text \<open>
  The function as decorated with \<open>@st.cache_data\<close>: a call whose arguments have an
  entry returns the entry and does not run the body; otherwise the body runs, and its
  result is entered when it returns (nothing is entered when it raises). The decorator
  is given no \<open>ttl\<close> and no \<open>max_entries\<close>, and the script calls
  \<open>clear\<close> nowhere.
\<close>

definition read_from_s3 :: "env \<Rightarrow> string \<Rightarrow> string \<Rightarrow> dataframe prog" where
  "read_from_s3 x b k s =
     (case cache s (b, k) of
        Some t \<Rightarrow> (Inr t, s)
      | None \<Rightarrow>
          (case read_from_s3_body x b k s of
             (Inl e, s') \<Rightarrow> (Inl e, s')
           | (Inr t, s') \<Rightarrow> (Inr t, s'\<lparr>cache := (cache s')((b, k) \<mapsto> t)\<rparr>)))"

definition write_to_s3 :: "env \<Rightarrow> dataframe \<Rightarrow> string \<Rightarrow> string \<Rightarrow> bool prog" where
  "write_to_s3 x df b k =
     seq (lift (to_parquet x df)) (\<lambda>buffer.
     seq (put_object x b k buffer) (\<lambda>_.
     ret True))"

subsection \<open>Loading the table (lines 39 to 58)\<close>

definition load_try_body :: "ui \<Rightarrow> env \<Rightarrow> unit prog" where
  "load_try_body u x =
     seq (load_str ''mode'') (\<lambda>m.
       if m = ''Use S3 file'' then
         seq (load_str ''bucket'') (\<lambda>b.
         seq (load_str ''key'') (\<lambda>k.
         seq (read_from_s3 x b k) (\<lambda>t.
         seq (store_name ''df'' (Frame t)) (\<lambda>_.
         seq (load_str ''bucket'') (\<lambda>b'.
         seq (load_str ''key'') (\<lambda>k'.
         emit (Sidebar_success (''Loaded from S3: s3://'' @ b' @ ''/'' @ k'))))))))
       else
         seq (store_name ''uploaded''
                (case uploaded u of None \<Rightarrow> NoneVal | Some f \<Rightarrow> Upload f)) (\<lambda>_.
         seq (load_name ''uploaded'') (\<lambda>up.
           case up of
             Upload f \<Rightarrow>
               seq (lift (read_parquet x f)) (\<lambda>t.
               seq (store_name ''df'' (Frame t)) (\<lambda>_.
               emit (Sidebar_success ''File uploaded and loaded'')))
           | NoneVal \<Rightarrow>
               seq (emit (Sidebar_info ''Please upload a file or use S3 file'')) (\<lambda>_.
               st_stop)
           | _ \<Rightarrow> raise (Exception (TypeError ''uploaded'')))))"

definition load_data :: "ui \<Rightarrow> env \<Rightarrow> unit prog" where
  "load_data u x =
     try_except (load_try_body u x)
       (\<lambda>e. seq (emit (St_error (''Error loading data: '' @ str_exception e))) (\<lambda>_. st_stop))"

subsection \<open>\<open>main_editor\<close> (lines 62 to 91)\<close>

text \<open>
  \<open>st.data_editor\<close>, or \<open>st.experimental_data_editor\<close> where reading the first
  attribute raises \<open>AttributeError\<close>: both are the grid widget, called with the same
  arguments.
\<close>

definition render_grid :: "ui \<Rightarrow> dataframe \<Rightarrow> dataframe prog" where
  "render_grid u df =
     (case editor_api u of
        DataEditor \<Rightarrow> ret (grid u df)
      | ExperimentalDataEditor \<Rightarrow> ret (grid u df))"

definition main_editor :: "ui \<Rightarrow> dataframe \<Rightarrow> dataframe prog" where
  "main_editor u df =
     seq (render_grid u df) (\<lambda>edited_df.
       if len edited_df < len df then
         (if confirm_clicked u then
            (if confirm_code u = ''125'' then
               seq (emit (St_success
                      (''Deleted '' @ str_int (int (len df) - int (len edited_df)) @ '' row(s)'')))
                 (\<lambda>_. ret edited_df)
             else
               seq (emit (St_error ''Incorrect code. No rows were deleted.''))
                 (\<lambda>_. ret (df_copy df)))
          else ret edited_df)
       else ret edited_df)"

text \<open>Line 95: \<open>edited_df = main_editor(df)\<close>.\<close>

definition edit_session :: "ui \<Rightarrow> unit prog" where
  "edit_session u =
     seq (load_frame ''df'') (\<lambda>df.
     seq (main_editor u df) (\<lambda>edited_df.
     store_name ''edited_df'' (Frame edited_df)))"

subsection \<open>Saving (lines 98 to 125)\<close>

definition backup_key_of :: "date \<Rightarrow> string" where
  "backup_key_of now = ''backups/Controle_de_Processos_'' @ strftime_Ymd now @ ''.parquet''"

text \<open>
  The body of the \<open>try\<close> of lines 103 to 115. In the call of line 106 Python evaluates
  the keyword arguments from left to right before it calls: \<open>BUCKET_NAME\<close>, then
  \<open>bucket\<close> and \<open>key\<close>, then \<open>backup_key\<close>.
\<close>

definition save_s3_try_body :: "env \<Rightarrow> date \<Rightarrow> unit prog" where
  "save_s3_try_body x now =
     seq (store_name ''backup_key'' (Str (backup_key_of now))) (\<lambda>_.
     seq (load_str ''BUCKET_NAME'') (\<lambda>dst_b.
     seq (load_str ''bucket'') (\<lambda>src_b.
     seq (load_str ''key'') (\<lambda>src_k.
     seq (load_str ''backup_key'') (\<lambda>dst_k.
     seq (copy_object x dst_b src_b src_k dst_k) (\<lambda>_.
     seq (load_frame ''edited_df'') (\<lambda>df.
     seq (load_str ''bucket'') (\<lambda>b.
     seq (load_str ''key'') (\<lambda>k.
     seq (write_to_s3 x df b k) (\<lambda>_.
     seq (load_str ''bucket'') (\<lambda>b'.
     seq (load_str ''key'') (\<lambda>k'.
     seq (emit (St_success (''Saved to S3: s3://'' @ b' @ ''/'' @ k'))) (\<lambda>_.
     seq (load_str ''bucket'') (\<lambda>b''.
     seq (load_str ''key'') (\<lambda>k''.
     emit (St_info (''Backup created at s3://'' @ b'' @ ''/'' @ k'')))))))))))))))))"

definition save_to_s3_handler :: "env \<Rightarrow> date \<Rightarrow> unit prog" where
  "save_to_s3_handler x now =
     try_except (save_s3_try_body x now)
       (\<lambda>e. emit (St_error (''Error saving to S3: '' @ str_exception e)))"

text \<open>\<open>edited_df.to_parquet(save_path)\<close>: encode, then write the file.\<close>

definition to_parquet_file :: "env \<Rightarrow> dataframe \<Rightarrow> string \<Rightarrow> unit prog" where
  "to_parquet_file x df path s =
     (case to_parquet x df of
        Inl e \<Rightarrow> (Inl (Exception e), s)
      | Inr body \<Rightarrow>
          (case fs_fault x path of
             Some e \<Rightarrow> (Inl (Exception e), s)
           | None \<Rightarrow> (Inr (), s\<lparr>local_fs := (local_fs s)(path \<mapsto> body)\<rparr>)))"

definition save_local_try_body :: "env \<Rightarrow> unit prog" where
  "save_local_try_body x =
     seq (load_frame ''edited_df'') (\<lambda>df.
     seq (load_str ''save_path'') (\<lambda>path.
     seq (to_parquet_file x df path) (\<lambda>_.
     seq (load_str ''save_path'') (\<lambda>path'.
     emit (St_success (''Saved locally as '' @ path'))))))"

definition save_locally_handler :: "env \<Rightarrow> unit prog" where
  "save_locally_handler x =
     try_except (save_local_try_body x)
       (\<lambda>e. emit (St_error (''Error saving locally: '' @ str_exception e)))"

definition save_dispatcher :: "ui \<Rightarrow> env \<Rightarrow> date \<Rightarrow> unit prog" where
  "save_dispatcher u x now =
     seq (store_name ''save_option'' (Str (save_option u))) (\<lambda>_.
     seq (load_str ''save_option'') (\<lambda>opt.
       if opt = ''S3'' then
         (if save_s3_clicked u then save_to_s3_handler x now else ret ())
       else
         seq (store_name ''save_path'' (Str (save_path u))) (\<lambda>_.
         if save_local_clicked u then save_locally_handler x else ret ())))"

subsection \<open>The script, and a pass\<close>

fun store_names :: "string list \<Rightarrow> unit prog" where
  "store_names [] = ret ()"
| "store_names (n # ns) = seq (store_name n Obj) (\<lambda>_. store_names ns)"

text \<open>
  The statements of the file in order, up to the end of the save handlers; the summary
  and the footer that follow only render. The imports, the client and the \<open>def\<close>s
  bind their names to objects the model does not look into. \<open>startup\<close> is lines 1
  to 41.
\<close>

definition startup :: "secrets \<Rightarrow> ui \<Rightarrow> unit prog" where
  "startup c u =
     seq (store_names [''st'', ''pd'', ''os'', ''datetime'', ''boto3'', ''BytesIO'', ''s3'']) (\<lambda>_.
     seq (store_name ''bucket'' (Str (BUCKET_NAME_secret c))) (\<lambda>_.
     seq (store_name ''key'' (Str (PARQUET_KEY_secret c))) (\<lambda>_.
     seq (store_names [''read_from_s3'', ''write_to_s3'']) (\<lambda>_.
     store_name ''mode'' (Str (mode u))))))"

definition script :: "secrets \<Rightarrow> ui \<Rightarrow> env \<Rightarrow> date \<Rightarrow> unit prog" where
  "script c u x now =
     seq (startup c u) (\<lambda>_.
     seq (load_data u x) (\<lambda>_.
     seq (store_names [''main_editor'']) (\<lambda>_.
     seq (edit_session u) (\<lambda>_.
     save_dispatcher u x now))))"

text \<open>
  One pass: Streamlit runs the script in a fresh module namespace and an empty page;
  S3, the disk and the cache are as the previous pass (or anyone else) left them. A
  \<open>StopException\<close> ends the pass silently.
\<close>

datatype outcome = Completed | Stopped | Uncaught exception

definition fresh :: "state \<Rightarrow> state" where
  "fresh s = s\<lparr>globals := Map.empty, messages := []\<rparr>"

definition run_pass :: "secrets \<Rightarrow> ui \<Rightarrow> env \<Rightarrow> date \<Rightarrow> state \<Rightarrow> outcome \<times> state" where
  "run_pass c u x now s =
     (case script c u x now (fresh s) of
        (Inr _, s') \<Rightarrow> (Completed, s')
      | (Inl StopException, s') \<Rightarrow> (Stopped, s')
      | (Inl (Exception e), s') \<Rightarrow> (Uncaught e, s'))"

section \<open>Vocabulary of the properties\<close>

text \<open>
  The calls made on the S3 client between two states of one run.
\<close>

definition new_calls :: "state \<Rightarrow> state \<Rightarrow> (s3_call \<times> bool) list" where
  "new_calls s s' = drop (length (s3_log s)) (s3_log s')"

text \<open>
  The script from its first line to the end of the load (line 58), and to line 95, where
  the save section begins.
\<close>

definition upto_load :: "secrets \<Rightarrow> ui \<Rightarrow> env \<Rightarrow> unit prog" where
  "upto_load c u x = seq (startup c u) (\<lambda>_. load_data u x)"

definition upto_save :: "secrets \<Rightarrow> ui \<Rightarrow> env \<Rightarrow> unit prog" where
  "upto_save c u x =
     seq (startup c u) (\<lambda>_.
     seq (load_data u x) (\<lambda>_.
     seq (store_names [''main_editor'']) (\<lambda>_.
     edit_session u)))"

text \<open>
  A load that ended in the \<open>except\<close> clause of line 56 with exception \<open>e\<close>: the
  pass is stopped there, the error is the only message, no table and no edited table are
  bound, the save section has not run, and S3, the disk and the cache are as they were.
\<close>

definition halted_with :: "secrets \<Rightarrow> ui \<Rightarrow> env \<Rightarrow> state \<Rightarrow> exception \<Rightarrow> state \<Rightarrow> bool" where
  "halted_with c u x s e s1 \<longleftrightarrow>
     upto_load c u x (fresh s) = (Inl StopException, s1) \<and>
     messages s1 = [St_error (''Error loading data: '' @ str_exception e)] \<and>
     globals s1 ''df'' = None \<and> globals s1 ''edited_df'' = None \<and>
     globals s1 ''save_option'' = None \<and>
     s3_store s1 = s3_store s \<and> local_fs s1 = local_fs s \<and> cache s1 = cache s"

text \<open>
  Reading a decimal numeral back, to say which number a message shows.
\<close>

definition read_nat :: "string \<Rightarrow> nat" where
  "read_nat ds = foldl (\<lambda>a c. 10 * a + (of_char c - 48)) 0 ds"

text \<open>
  The backup address in the words of the specification: \<open>backups/<base-name>_<YYYYMMDD>.<ext>\<close>
  from the primary key, where the base name and the extension are those of the last
  component of the key (as \<open>os.path.basename\<close> and \<open>os.path.splitext\<close> split it).
\<close>

definition key_filename :: "string \<Rightarrow> string" where
  "key_filename k = rev (takeWhile (\<lambda>c. c \<noteq> CHR ''/'') (rev k))"

definition key_base :: "string \<Rightarrow> string" where
  "key_base k =
     (let f = key_filename k in
      if CHR ''.'' \<in> set f then rev (tl (dropWhile (\<lambda>c. c \<noteq> CHR ''.'') (rev f))) else f)"

definition key_ext :: "string \<Rightarrow> string" where
  "key_ext k =
     (let f = key_filename k in
      if CHR ''.'' \<in> set f then rev (takeWhile (\<lambda>c. c \<noteq> CHR ''.'') (rev f)) else [])"

definition spec_backup_key :: "string \<Rightarrow> date \<Rightarrow> string" where
  "spec_backup_key k now =
     ''backups/'' @ key_base k @ ''_'' @ strftime_Ymd now @ ''.'' @ key_ext k"

text \<open>
  A session: passes of the script, one per user action, and between them whatever else
  writes an object into the bucket. The namespace and the page are rebuilt by every pass;
  S3, the disk and the cache persist.
\<close>

datatype event = Rerun ui env date | Overwrite string string bytes

fun run_event :: "secrets \<Rightarrow> event \<Rightarrow> state \<Rightarrow> state" where
  "run_event c (Rerun u x now) s = snd (run_pass c u x now s)"
| "run_event c (Overwrite b k body) s = s\<lparr>s3_store := (s3_store s)((b, k) \<mapsto> body)\<rparr>"

fun run_session :: "secrets \<Rightarrow> event list \<Rightarrow> state \<Rightarrow> state" where
  "run_session c [] s = s"
| "run_session c (e # es) s = run_session c es (run_event c e s)"

subsection \<open>A concrete installation\<close>

text \<open>
  The bucket and key of the footer of the page, a table of three rows, a user who
  deletes the last row in the grid, and a codec that knows the two tables involved.
\<close>

definition demo_secrets :: secrets where
  "demo_secrets =
     \<lparr>BUCKET_NAME_secret = ''controle-de-processos'',
      PARQUET_KEY_secret = ''Controle_de_Processos.parquet''\<rparr>"

definition demo_table :: dataframe where
  "demo_table =
     \<lparr>columns = [''id'', ''cliente''],
      rows = [[IntCell 1, StrCell ''Ana''], [IntCell 2, StrCell ''Bruno''],
              [IntCell 3, StrCell ''Caio'']]\<rparr>"

definition delete_last_row :: "dataframe \<Rightarrow> dataframe" where
  "delete_last_row df = df\<lparr>rows := butlast (rows df)\<rparr>"

definition demo_env :: env where
  "demo_env =
     \<lparr>to_parquet = (\<lambda>df.
        if df = demo_table then Inr ''PAR1-three-rows''
        else if df = delete_last_row demo_table then Inr ''PAR1-two-rows''
        else Inl (ParquetError ''unsupported column type'')),
      read_parquet = (\<lambda>body.
        if body = ''PAR1-three-rows'' then Inr demo_table
        else if body = ''PAR1-two-rows'' then Inr (delete_last_row demo_table)
        else Inl (ParquetError ''Parquet magic bytes not found'')),
      s3_fault = (\<lambda>_. None),
      fs_fault = (\<lambda>_. None)\<rparr>"

definition demo_ui :: ui where
  "demo_ui =
     \<lparr>mode = ''Use S3 file'', uploaded = None, editor_api = DataEditor,
      grid = delete_last_row, confirm_code = ''999'', confirm_clicked = True,
      save_option = ''S3'', save_s3_clicked = True,
      save_path = ''Controle_de_Processos_edited.parquet'', save_local_clicked = False\<rparr>"

definition demo_date :: date where
  "demo_date = \<lparr>year = 2026, month = 11, day = 4\<rparr>"

definition demo_state :: state where
  "demo_state =
     \<lparr>globals = Map.empty, messages = [],
      s3_store = [(''controle-de-processos'', ''Controle_de_Processos.parquet'') \<mapsto>
                    ''PAR1-three-rows''],
      s3_log = [], local_fs = Map.empty, cache = Map.empty\<rparr>"

text \<open>
  Other users: one who deletes the row, confirms nothing and saves to the local disk;
  one who changes nothing and saves to S3.
\<close>

definition demo_ui_local :: ui where
  "demo_ui_local =
     demo_ui\<lparr>confirm_code := [], confirm_clicked := False, save_option := ''Local'',
             save_s3_clicked := False, save_local_clicked := True\<rparr>"

definition demo_ui_keep :: ui where
  "demo_ui_keep = demo_ui\<lparr>grid := (\<lambda>df. df), confirm_code := [], confirm_clicked := False\<rparr>"

text \<open>
  The state in which the save section finds the installation above; the same state in a
  namespace where \<open>BUCKET_NAME\<close> is bound as well; with another primary key; and
  with the local destination chosen.
\<close>

definition demo_loaded :: state where
  "demo_loaded =
     demo_state\<lparr>globals :=
       [''bucket'' \<mapsto> Str ''controle-de-processos'',
        ''key'' \<mapsto> Str ''Controle_de_Processos.parquet'',
        ''df'' \<mapsto> Frame demo_table,
        ''edited_df'' \<mapsto> Frame (delete_last_row demo_table)]\<rparr>"

definition demo_loaded_bound :: state where
  "demo_loaded_bound =
     demo_loaded\<lparr>globals := (globals demo_loaded)(''BUCKET_NAME'' \<mapsto> Str ''controle-de-processos'')\<rparr>"

definition other_key_state :: state where
  "other_key_state =
     demo_loaded\<lparr>globals := (globals demo_loaded)(''key'' \<mapsto> Str ''clientes/carteira.parquet'')\<rparr>"

definition demo_local_state :: state where
  "demo_local_state =
     demo_loaded\<lparr>globals := (globals demo_loaded)
       (''save_option'' \<mapsto> Str ''Local'',
        ''save_path'' \<mapsto> Str ''Controle_de_Processos_edited.parquet'')\<rparr>"

text \<open>
  A bucket without the object, and a disk that refuses the write.
\<close>

definition demo_empty_bucket :: state where
  "demo_empty_bucket = demo_state\<lparr>s3_store := Map.empty\<rparr>"

definition demo_env_readonly_disk :: env where
  "demo_env_readonly_disk =
     demo_env\<lparr>fs_fault := (\<lambda>_. Some (OSError ''[Errno 13] Permission denied''))\<rparr>"

section \<open>Running statements\<close>

lemma seq_assoc [simp]: "seq (seq m f) g = seq m (\<lambda>v. seq (f v) g)"
  by (auto simp: seq_def fun_eq_iff split: prod.split sum.split)

lemma seq_ret [simp]: "seq (ret v) f s = f v s"
  by (simp add: seq_def ret_def)

lemma seq_raise [simp]: "seq (raise e) f s = (Inl e, s)"
  by (simp add: seq_def raise_def)

lemma seq_emit [simp]: "seq (emit m) f s = f () (s\<lparr>messages := messages s @ [m]\<rparr>)"
  by (simp add: seq_def emit_def)

lemma seq_store_name [simp]:
  "seq (store_name n v) f s = f () (s\<lparr>globals := (globals s)(n \<mapsto> v)\<rparr>)"
  by (simp add: seq_def store_name_def)

lemma seq_lift [simp]:
  "seq (lift r) f s = (case r of Inl e \<Rightarrow> (Inl (Exception e), s) | Inr v \<Rightarrow> f v s)"
  by (simp add: seq_def lift_def split: sum.split)

lemma seq_load_name [simp]:
  "seq (load_name n) f s =
     (case globals s n of None \<Rightarrow> (Inl (Exception (NameError n)), s) | Some v \<Rightarrow> f v s)"
  by (simp add: seq_def load_name_def split: option.split)

lemma seq_load_str [simp]:
  "seq (load_str n) f s =
     (case globals s n of
        None \<Rightarrow> (Inl (Exception (NameError n)), s)
      | Some (Str v) \<Rightarrow> f v s
      | Some _ \<Rightarrow> (Inl (Exception (TypeError n)), s))"
  by (simp add: load_str_def split: option.split pyval.split)

lemma seq_load_frame [simp]:
  "seq (load_frame n) f s =
     (case globals s n of
        None \<Rightarrow> (Inl (Exception (NameError n)), s)
      | Some (Frame v) \<Rightarrow> f v s
      | Some _ \<Rightarrow> (Inl (Exception (TypeError n)), s))"
  by (simp add: load_frame_def split: option.split pyval.split)

lemma log_call_simps [simp]:
  "globals (log_call c ok s) = globals s"
  "messages (log_call c ok s) = messages s"
  "s3_store (log_call c ok s) = s3_store s"
  "local_fs (log_call c ok s) = local_fs s"
  "cache (log_call c ok s) = cache s"
  "s3_log (log_call c ok s) = s3_log s @ [(c, ok)]"
  by (simp_all add: log_call_def)

lemma seq_copy_object [simp]:
  "seq (copy_object x d b k bk) f s =
     (case s3_fault x (CopyObject d b k bk) of
        Some e \<Rightarrow> (Inl (Exception e), log_call (CopyObject d b k bk) False s)
      | None \<Rightarrow>
          (case s3_store s (b, k) of
             None \<Rightarrow> (Inl (Exception (ClientError ''NoSuchKey'')),
                      log_call (CopyObject d b k bk) False s)
           | Some body \<Rightarrow>
               f () (log_call (CopyObject d b k bk) True
                      (s\<lparr>s3_store := (s3_store s)((d, bk) \<mapsto> body)\<rparr>))))"
  by (simp add: seq_def copy_object_def split: option.split)

lemma seq_get_object [simp]:
  "seq (get_object x b k) f s =
     (case s3_fault x (GetObject b k) of
        Some e \<Rightarrow> (Inl (Exception e), log_call (GetObject b k) False s)
      | None \<Rightarrow>
          (case s3_store s (b, k) of
             None \<Rightarrow> (Inl (Exception (ClientError ''NoSuchKey'')),
                      log_call (GetObject b k) False s)
           | Some body \<Rightarrow> f body (log_call (GetObject b k) True s)))"
  by (simp add: seq_def get_object_def split: option.split)

lemma seq_put_object [simp]:
  "seq (put_object x b k body) f s =
     (case s3_fault x (PutObject b k body) of
        Some e \<Rightarrow> (Inl (Exception e), log_call (PutObject b k body) False s)
      | None \<Rightarrow>
          f () (log_call (PutObject b k body) True
                  (s\<lparr>s3_store := (s3_store s)((b, k) \<mapsto> body)\<rparr>)))"
  by (simp add: seq_def put_object_def split: option.split)

lemma seq_write_to_s3 [simp]:
  "seq (write_to_s3 x df b k) f s =
     (case to_parquet x df of
        Inl e \<Rightarrow> (Inl (Exception e), s)
      | Inr body \<Rightarrow>
          (case s3_fault x (PutObject b k body) of
             Some e \<Rightarrow> (Inl (Exception e), log_call (PutObject b k body) False s)
           | None \<Rightarrow>
               f True (log_call (PutObject b k body) True
                        (s\<lparr>s3_store := (s3_store s)((b, k) \<mapsto> body)\<rparr>))))"
  by (simp add: write_to_s3_def split: option.split sum.split)

lemma seq_to_parquet_file [simp]:
  "seq (to_parquet_file x df path) f s =
     (case to_parquet x df of
        Inl e \<Rightarrow> (Inl (Exception e), s)
      | Inr body \<Rightarrow>
          (case fs_fault x path of
             Some e \<Rightarrow> (Inl (Exception e), s)
           | None \<Rightarrow> f () (s\<lparr>local_fs := (local_fs s)(path \<mapsto> body)\<rparr>)))"
  by (simp add: seq_def to_parquet_file_def split: option.split sum.split)

lemma seq_read_from_s3 [simp]:
  "seq (read_from_s3 x b k) f s =
     (case cache s (b, k) of
        Some t \<Rightarrow> f t s
      | None \<Rightarrow>
          (case s3_fault x (GetObject b k) of
             Some e \<Rightarrow> (Inl (Exception e), log_call (GetObject b k) False s)
           | None \<Rightarrow>
               (case s3_store s (b, k) of
                  None \<Rightarrow> (Inl (Exception (ClientError ''NoSuchKey'')),
                           log_call (GetObject b k) False s)
                | Some body \<Rightarrow>
                    (case read_parquet x body of
                       Inl e \<Rightarrow> (Inl (Exception e), log_call (GetObject b k) True s)
                     | Inr t \<Rightarrow>
                         f t ((log_call (GetObject b k) True s)
                                \<lparr>cache := (cache s)((b, k) \<mapsto> t)\<rparr>)))))"
  by (simp add: seq_def read_from_s3_def read_from_s3_body_def get_object_def lift_def
      split: option.split sum.split)

lemma seq_try_except [simp]:
  "seq (try_except body handler) f s =
     (case body s of
        (Inl (Exception e), s') \<Rightarrow> seq (handler e) f s'
      | (Inl StopException, s') \<Rightarrow> (Inl StopException, s')
      | (Inr v, s') \<Rightarrow> f v s')"
  by (simp add: seq_def try_except_def split: prod.split sum.split exn.split)

lemma seq_Inr: "m s = (Inr v, s') \<Longrightarrow> seq m f s = f v s'"
  by (simp add: seq_def)

lemma seq_Inl: "m s = (Inl e, s') \<Longrightarrow> seq m f s = (Inl e, s')"
  by (simp add: seq_def)

lemma new_calls_append [simp]: "s3_log s' = s3_log s @ tr \<Longrightarrow> new_calls s s' = tr"
  by (simp add: new_calls_def)

lemma new_calls_same [simp]: "s3_log s' = s3_log s \<Longrightarrow> new_calls s s' = []"
  by (simp add: new_calls_def)

lemma df_copy_same [simp]: "df_copy df = df"
  by (simp add: df_copy_def)

lemma render_grid_run [simp]: "render_grid u df = ret (grid u df)"
  by (simp add: render_grid_def split: editor_api.split)

lemma demo_lens [simp]: "len demo_table = 3" "len (delete_last_row demo_table) = 2"
  by (simp_all add: len_def demo_table_def delete_last_row_def)

section \<open>Numerals and dates\<close>

lemma str_int_diff: "b < a \<Longrightarrow> str_int (int a - int b) = str_nat (a - b)"
  by (simp add: str_int_def nat_diff_distrib')

lemma digit_char_val: "d < 10 \<Longrightarrow> of_char (digit_char d) - 48 = d"
proof -
  assume "d < 10"
  then have "d \<in> {0, 1, 2, 3, 4, 5, 6, 7, 8, 9}" by auto
  then show ?thesis by (auto simp: digit_char_def)
qed

lemma read_nat_snoc: "read_nat (ds @ [c]) = 10 * read_nat ds + (of_char c - 48)"
  by (simp add: read_nat_def)

lemma read_nat_str_nat: "read_nat (str_nat n) = n"
proof (induction n rule: str_nat.induct)
  case (1 n)
  show ?case
  proof (cases "n < 10")
    case True
    then show ?thesis
      by (subst str_nat.simps) (simp add: read_nat_def digit_char_val)
  next
    case False
    with 1 have "read_nat (str_nat (n div 10)) = n div 10" by simp
    with False show ?thesis
      by (subst str_nat.simps) (simp add: read_nat_snoc digit_char_val)
  qed
qed

lemma str_nat_length1: "n < 10 \<Longrightarrow> length (str_nat n) = 1"
  by (subst str_nat.simps) simp

lemma str_nat_length2: "n < 100 \<Longrightarrow> length (str_nat n) \<le> 2"
  by (subst str_nat.simps) (simp add: str_nat_length1)

lemma str_nat_length3: "n < 1000 \<Longrightarrow> length (str_nat n) \<le> 3"
proof (cases "n < 10")
  case True
  then show ?thesis by (simp add: str_nat_length1)
next
  case False
  assume "n < 1000"
  then have "n div 10 < 100" by simp
  from str_nat_length2 [OF this] False show ?thesis
    by (subst str_nat.simps) simp
qed

lemma str_nat_length4: "n < 10000 \<Longrightarrow> length (str_nat n) \<le> 4"
proof (cases "n < 10")
  case True
  then show ?thesis by (simp add: str_nat_length1)
next
  case False
  assume "n < 10000"
  then have "n div 10 < 1000" by simp
  from str_nat_length3 [OF this] False show ?thesis
    by (subst str_nat.simps) simp
qed

lemma zero_pad_length: "length (str_nat n) \<le> w \<Longrightarrow> length (zero_pad w n) = w"
  by (simp add: zero_pad_def)

lemma read_nat_zeros: "read_nat (replicate j CHR ''0'' @ ds) = read_nat ds"
proof -
  have "foldl (\<lambda>a c. 10 * a + (of_char c - 48)) 0 (replicate j CHR ''0'') = (0::nat)"
    by (induction j) simp_all
  then show ?thesis by (simp add: read_nat_def)
qed

lemma read_nat_zero_pad: "read_nat (zero_pad w n) = n"
  by (simp add: zero_pad_def read_nat_zeros read_nat_str_nat)

lemma digit_char_digit: "d < 10 \<Longrightarrow> digit_char d \<in> set ''0123456789''"
  unfolding digit_char_def by (rule nth_mem) simp

lemma str_nat_digits: "set (str_nat n) \<subseteq> set ''0123456789''"
proof (induction n rule: str_nat.induct)
  case (1 n)
  show ?case
  proof (cases "n < 10")
    case True
    then show ?thesis
      using digit_char_digit [of n] by (subst str_nat.simps) simp
  next
    case False
    with 1 have "set (str_nat (n div 10)) \<subseteq> set ''0123456789''" by simp
    moreover have "digit_char (n mod 10) \<in> set ''0123456789''"
      by (rule digit_char_digit) simp
    ultimately show ?thesis
      using False by (subst str_nat.simps) simp
  qed
qed

lemma zero_pad_digits: "set (zero_pad w n) \<subseteq> set ''0123456789''"
  using str_nat_digits [of n] by (auto simp: zero_pad_def)

lemma strftime_parts:
  assumes "valid_date d"
  shows "length (zero_pad 4 (year d)) = 4" "length (zero_pad 2 (month d)) = 2"
    "length (zero_pad 2 (day d)) = 2"
proof -
  from assms have "year d < 10000" "month d < 100" "day d < 100"
    by (simp_all add: valid_date_def)
  then show "length (zero_pad 4 (year d)) = 4" "length (zero_pad 2 (month d)) = 2"
    "length (zero_pad 2 (day d)) = 2"
    by (simp_all add: zero_pad_length str_nat_length4 str_nat_length2)
qed

lemma strftime_length: "valid_date d \<Longrightarrow> length (strftime_Ymd d) = 8"
  by (simp add: strftime_Ymd_def strftime_parts)

lemma strftime_digits: "set (strftime_Ymd d) \<subseteq> set ''0123456789''"
  using zero_pad_digits [of 4 "year d"] zero_pad_digits [of 2 "month d"]
    zero_pad_digits [of 2 "day d"]
  by (simp add: strftime_Ymd_def)

lemma strftime_inj:
  assumes "valid_date d1" and "valid_date d2" and eq: "strftime_Ymd d1 = strftime_Ymd d2"
  shows "d1 = d2"
proof -
  note p1 = strftime_parts [OF assms(1)] and p2 = strftime_parts [OF assms(2)]
  from eq have "zero_pad 4 (year d1) @ (zero_pad 2 (month d1) @ zero_pad 2 (day d1)) =
                zero_pad 4 (year d2) @ (zero_pad 2 (month d2) @ zero_pad 2 (day d2))"
    by (simp add: strftime_Ymd_def)
  with p1 p2 have y: "zero_pad 4 (year d1) = zero_pad 4 (year d2)"
    and r: "zero_pad 2 (month d1) @ zero_pad 2 (day d1) = zero_pad 2 (month d2) @ zero_pad 2 (day d2)"
    by simp_all
  from r p1 p2 have m: "zero_pad 2 (month d1) = zero_pad 2 (month d2)"
    and dd: "zero_pad 2 (day d1) = zero_pad 2 (day d2)"
    by simp_all
  from y have "read_nat (zero_pad 4 (year d1)) = read_nat (zero_pad 4 (year d2))" by simp
  then have "year d1 = year d2" by (simp add: read_nat_zero_pad)
  moreover from m have "read_nat (zero_pad 2 (month d1)) = read_nat (zero_pad 2 (month d2))" by simp
  then have "month d1 = month d2" by (simp add: read_nat_zero_pad)
  moreover from dd have "read_nat (zero_pad 2 (day d1)) = read_nat (zero_pad 2 (day d2))" by simp
  then have "day d1 = day d2" by (simp add: read_nat_zero_pad)
  ultimately show ?thesis by simp
qed

lemma demo_strftime: "strftime_Ymd demo_date = ''20261104''"
  by (simp add: strftime_Ymd_def zero_pad_def demo_date_def str_nat.simps digit_char_def)

section \<open>The parts of a pass\<close>

lemma startup_run:
  "startup c u s =
     (Inr (), s\<lparr>globals := (globals s)
        (''st'' \<mapsto> Obj, ''pd'' \<mapsto> Obj, ''os'' \<mapsto> Obj, ''datetime'' \<mapsto> Obj, ''boto3'' \<mapsto> Obj,
         ''BytesIO'' \<mapsto> Obj, ''s3'' \<mapsto> Obj, ''bucket'' \<mapsto> Str (BUCKET_NAME_secret c),
         ''key'' \<mapsto> Str (PARQUET_KEY_secret c), ''read_from_s3'' \<mapsto> Obj,
         ''write_to_s3'' \<mapsto> Obj, ''mode'' \<mapsto> Str (mode u))\<rparr>)"
  by (simp add: startup_def store_name_def ret_def)

lemma main_editor_run:
  "\<exists>E ms. main_editor u T s = (Inr E, s\<lparr>messages := messages s @ ms\<rparr>)"
proof -
  have "main_editor u T s = (Inr (grid u T), s\<lparr>messages := messages s @ []\<rparr>) \<or>
        main_editor u T s = (Inr (grid u T), s\<lparr>messages := messages s @
           [St_success (''Deleted '' @ str_int (int (len T) - int (len (grid u T))) @ '' row(s)'')]\<rparr>) \<or>
        main_editor u T s = (Inr T, s\<lparr>messages := messages s @
           [St_error ''Incorrect code. No rows were deleted.'']\<rparr>)"
    by (simp add: main_editor_def ret_def)
  then show ?thesis by blast
qed

lemma edit_session_run:
  assumes "globals s ''df'' = Some (Frame T)"
  shows "\<exists>E ms. edit_session u s =
           (Inr (), s\<lparr>messages := messages s @ ms,
                       globals := (globals s)(''edited_df'' \<mapsto> Frame E)\<rparr>)"
proof -
  obtain E ms where "main_editor u T s = (Inr E, s\<lparr>messages := messages s @ ms\<rparr>)"
    using main_editor_run by blast
  with assms have "edit_session u s =
      (Inr (), s\<lparr>messages := messages s @ ms, globals := (globals s)(''edited_df'' \<mapsto> Frame E)\<rparr>)"
    by (simp add: edit_session_def seq_Inr store_name_def)
  then show ?thesis by blast
qed

lemma load_data_frame:
  assumes "load_data u x s = (r, s')"
  shows "(r = Inr () \<or> r = Inl StopException) \<and>
         s3_store s' = s3_store s \<and> local_fs s' = local_fs s \<and>
         (\<forall>n. n \<noteq> ''df'' \<and> n \<noteq> ''uploaded'' \<longrightarrow> globals s' n = globals s n) \<and>
         (r = Inr () \<longrightarrow> (\<exists>T. globals s' ''df'' = Some (Frame T))) \<and>
         (\<forall>e \<in> set (new_calls s s'). \<exists>b k ok. e = (GetObject b k, ok)) \<and>
         (\<forall>a t. cache s a = Some t \<longrightarrow> cache s' a = Some t)"
  using assms
  by (auto simp: load_data_def load_try_body_def try_except_def emit_def st_stop_def raise_def
      split: option.splits pyval.splits sum.splits if_splits)

lemma script_upto_save: "script c u x now = seq (upto_save c u x) (\<lambda>_. save_dispatcher u x now)"
  by (simp add: script_def upto_save_def)

lemma script_upto_load:
  "script c u x now =
     seq (upto_load c u x) (\<lambda>_.
     seq (store_names [''main_editor'']) (\<lambda>_.
     seq (edit_session u) (\<lambda>_.
     save_dispatcher u x now)))"
  by (simp add: script_def upto_load_def)

lemma upto_save_upto_load:
  "upto_save c u x =
     seq (upto_load c u x) (\<lambda>_. seq (store_names [''main_editor'']) (\<lambda>_. edit_session u))"
  by (simp add: upto_save_def upto_load_def)

lemma upto_load_frame:
  assumes "upto_load c u x (fresh s) = (r, s1)"
  shows "(r = Inr () \<or> r = Inl StopException) \<and>
         s3_store s1 = s3_store s \<and> local_fs s1 = local_fs s \<and>
         globals s1 ''BUCKET_NAME'' = None \<and>
         globals s1 ''edited_df'' = None \<and>
         globals s1 ''bucket'' = Some (Str (BUCKET_NAME_secret c)) \<and>
         globals s1 ''key'' = Some (Str (PARQUET_KEY_secret c)) \<and>
         (r = Inr () \<longrightarrow> (\<exists>T. globals s1 ''df'' = Some (Frame T))) \<and>
         (\<forall>e \<in> set (new_calls s s1). \<exists>b k ok. e = (GetObject b k, ok)) \<and>
         (\<forall>a t. cache s a = Some t \<longrightarrow> cache s1 a = Some t)"
proof -
  obtain s0 where s0: "startup c u (fresh s) = (Inr (), s0)"
    and g0: "globals s0 = Map.empty
        (''st'' \<mapsto> Obj, ''pd'' \<mapsto> Obj, ''os'' \<mapsto> Obj, ''datetime'' \<mapsto> Obj, ''boto3'' \<mapsto> Obj,
         ''BytesIO'' \<mapsto> Obj, ''s3'' \<mapsto> Obj, ''bucket'' \<mapsto> Str (BUCKET_NAME_secret c),
         ''key'' \<mapsto> Str (PARQUET_KEY_secret c), ''read_from_s3'' \<mapsto> Obj,
         ''write_to_s3'' \<mapsto> Obj, ''mode'' \<mapsto> Str (mode u))"
    and f0: "s3_store s0 = s3_store s" "local_fs s0 = local_fs s" "s3_log s0 = s3_log s"
       "cache s0 = cache s"
    by (simp add: startup_run fresh_def)
  from assms s0 have ld: "load_data u x s0 = (r, s1)"
    by (simp add: upto_load_def seq_Inr)
  have nc: "new_calls s s1 = new_calls s0 s1"
    by (simp add: new_calls_def f0)
  from load_data_frame [OF ld] show ?thesis
    unfolding nc by (simp add: g0 f0)
qed

text \<open>
  \<open>BUCKET_NAME\<close> is bound nowhere in the file, so line 107 raises \<open>NameError\<close>
  before \<open>copy_object\<close> is called.
\<close>

lemma save_to_s3_handler_unbound:
  assumes "globals s ''BUCKET_NAME'' = None"
  shows "save_to_s3_handler x now s =
           (Inr (), s\<lparr>globals := (globals s)(''backup_key'' \<mapsto> Str (backup_key_of now)),
                       messages := messages s @
                         [St_error ''Error saving to S3: name 'BUCKET_NAME' is not defined'']\<rparr>)"
  using assms by (simp add: save_to_s3_handler_def save_s3_try_body_def try_except_def emit_def)

lemma save_s3_try_body_unbound:
  assumes "globals s ''BUCKET_NAME'' = None"
  shows "save_s3_try_body x now s =
           (Inl (Exception (NameError ''BUCKET_NAME'')),
            s\<lparr>globals := (globals s)(''backup_key'' \<mapsto> Str (backup_key_of now))\<rparr>)"
  using assms by (simp add: save_s3_try_body_def)

lemma save_dispatcher_s3_unbound:
  assumes "save_option u = ''S3''" and "save_s3_clicked u" and "globals s ''BUCKET_NAME'' = None"
  shows "save_dispatcher u x now s =
           (Inr (), s\<lparr>globals := (globals s)
                         (''save_option'' \<mapsto> Str ''S3'', ''backup_key'' \<mapsto> Str (backup_key_of now)),
                       messages := messages s @
                         [St_error ''Error saving to S3: name 'BUCKET_NAME' is not defined'']\<rparr>)"
  using assms by (simp add: save_dispatcher_def save_to_s3_handler_unbound)

lemma upto_save_frame:
  assumes "upto_save c u x (fresh s) = (Inr (), s1)"
  shows "globals s1 ''BUCKET_NAME'' = None \<and> s3_store s1 = s3_store s \<and>
         local_fs s1 = local_fs s \<and>
         (\<forall>e \<in> set (new_calls s s1). \<exists>b k ok. e = (GetObject b k, ok))"
proof -
  obtain r s0 where ul: "upto_load c u x (fresh s) = (r, s0)"
    by (cases "upto_load c u x (fresh s)")
  note fr = upto_load_frame [OF ul]
  have r: "r = Inr ()"
  proof (rule ccontr)
    assume "r \<noteq> Inr ()"
    with fr have "r = Inl StopException" by blast
    with ul assms show False by (simp add: upto_save_upto_load seq_Inl)
  qed
  with fr obtain T where T: "globals s0 ''df'' = Some (Frame T)" by blast
  let ?s0' = "s0\<lparr>globals := (globals s0)(''main_editor'' \<mapsto> Obj)\<rparr>"
  have "globals ?s0' ''df'' = Some (Frame T)" using T by simp
  from edit_session_run [OF this, of u] obtain E ms where
    es: "edit_session u ?s0' =
           (Inr (), ?s0'\<lparr>messages := messages ?s0' @ ms,
                          globals := (globals ?s0')(''edited_df'' \<mapsto> Frame E)\<rparr>)"
    by blast
  from ul r assms have "edit_session u ?s0' = (Inr (), s1)"
    by (simp add: upto_save_upto_load seq_Inr)
  with es have s1: "s1 = ?s0'\<lparr>messages := messages ?s0' @ ms,
                          globals := (globals ?s0')(''edited_df'' \<mapsto> Frame E)\<rparr>"
    by simp
  have "new_calls s s1 = new_calls s s0" by (simp add: new_calls_def s1)
  with fr show ?thesis by (simp add: s1)
qed

lemma save_dispatcher_local_ok:
  assumes "save_option u \<noteq> ''S3''" and "save_local_clicked u"
    and "globals s ''edited_df'' = Some (Frame E)"
    and "to_parquet x E = Inr body" and "fs_fault x (save_path u) = None"
  shows "save_dispatcher u x now s =
           (Inr (), s\<lparr>globals := (globals s)
                         (''save_option'' \<mapsto> Str (save_option u), ''save_path'' \<mapsto> Str (save_path u)),
                       local_fs := (local_fs s)(save_path u \<mapsto> body),
                       messages := messages s @ [St_success (''Saved locally as '' @ save_path u)]\<rparr>)"
  using assms
  by (simp add: save_dispatcher_def save_locally_handler_def save_local_try_body_def
      try_except_def emit_def)

lemma save_to_s3_handler_log:
  "\<exists>d b k body ok.
     s3_log (snd (save_to_s3_handler x now s)) = s3_log s \<or>
     s3_log (snd (save_to_s3_handler x now s)) =
       s3_log s @ [(CopyObject d b k (backup_key_of now), False)] \<or>
     s3_log (snd (save_to_s3_handler x now s)) =
       s3_log s @ [(CopyObject d b k (backup_key_of now), True)] \<or>
     s3_log (snd (save_to_s3_handler x now s)) =
       s3_log s @ [(CopyObject d b k (backup_key_of now), True), (PutObject b k body, ok)]"
  by (auto simp: save_to_s3_handler_def save_s3_try_body_def try_except_def emit_def
      split: option.split pyval.split sum.split)

lemma save_to_s3_handler_backup_content:
  assumes "(PutObject b k body, ok) \<in> set (new_calls s (snd (save_to_s3_handler x now s)))"
  shows "\<exists>d v. (CopyObject d b k (backup_key_of now), True) \<in>
                  set (new_calls s (snd (save_to_s3_handler x now s))) \<and>
               s3_store s (b, k) = Some v \<and>
               ((d, backup_key_of now) \<noteq> (b, k) \<longrightarrow>
                  s3_store (snd (save_to_s3_handler x now s)) (d, backup_key_of now) = Some v)"
  using assms
  by (auto simp: save_to_s3_handler_def save_s3_try_body_def try_except_def emit_def
        new_calls_def
      split: option.splits pyval.splits sum.splits)

lemma save_to_s3_handler_backup_key:
  "globals (snd (save_to_s3_handler x now s)) ''backup_key'' = Some (Str (backup_key_of now))"
  by (auto simp: save_to_s3_handler_def save_s3_try_body_def try_except_def emit_def
      split: option.split pyval.split sum.split)

lemma save_to_s3_handler_frame:
  "fst (save_to_s3_handler x now s) = Inr () \<and>
   cache (snd (save_to_s3_handler x now s)) = cache s \<and>
   local_fs (snd (save_to_s3_handler x now s)) = local_fs s \<and>
   (\<forall>n. n \<noteq> ''backup_key'' \<longrightarrow> globals (snd (save_to_s3_handler x now s)) n = globals s n)"
  by (auto simp: save_to_s3_handler_def save_s3_try_body_def try_except_def emit_def
      split: option.split pyval.split sum.split)

lemma save_locally_handler_frame:
  "fst (save_locally_handler x s) = Inr () \<and>
   cache (snd (save_locally_handler x s)) = cache s \<and>
   s3_store (snd (save_locally_handler x s)) = s3_store s \<and>
   s3_log (snd (save_locally_handler x s)) = s3_log s \<and>
   globals (snd (save_locally_handler x s)) = globals s"
  by (auto simp: save_locally_handler_def save_local_try_body_def try_except_def emit_def
      split: option.split pyval.split sum.split)

lemma save_dispatcher_frame:
  "fst (save_dispatcher u x now s) = Inr () \<and>
   cache (snd (save_dispatcher u x now s)) = cache s \<and>
   (\<forall>n. n \<noteq> ''backup_key'' \<and> n \<noteq> ''save_option'' \<and> n \<noteq> ''save_path'' \<longrightarrow>
        globals (snd (save_dispatcher u x now s)) n = globals s n)"
proof -
  let ?s1 = "s\<lparr>globals := (globals s)(''save_option'' \<mapsto> Str (save_option u))\<rparr>"
  let ?s2 = "s\<lparr>globals := (globals s)(''save_option'' \<mapsto> Str (save_option u),
                                        ''save_path'' \<mapsto> Str (save_path u))\<rparr>"
  have "save_dispatcher u x now s = save_to_s3_handler x now ?s1 \<or>
        save_dispatcher u x now s = save_locally_handler x ?s2 \<or>
        save_dispatcher u x now s = (Inr (), ?s1) \<or>
        save_dispatcher u x now s = (Inr (), ?s2)"
    by (simp add: save_dispatcher_def ret_def)
  then show ?thesis
    using save_to_s3_handler_frame [of x now ?s1] save_locally_handler_frame [of x ?s2]
    by (elim disjE) simp_all
qed

lemma save_dispatcher_quiet:
  assumes "globals s ''BUCKET_NAME'' = None"
  shows "s3_log (snd (save_dispatcher u x now s)) = s3_log s \<and>
         s3_store (snd (save_dispatcher u x now s)) = s3_store s"
proof -
  let ?s1 = "s\<lparr>globals := (globals s)(''save_option'' \<mapsto> Str (save_option u))\<rparr>"
  let ?s2 = "s\<lparr>globals := (globals s)(''save_option'' \<mapsto> Str (save_option u),
                                        ''save_path'' \<mapsto> Str (save_path u))\<rparr>"
  have "save_dispatcher u x now s = save_to_s3_handler x now ?s1 \<or>
        save_dispatcher u x now s = save_locally_handler x ?s2 \<or>
        save_dispatcher u x now s = (Inr (), ?s1) \<or>
        save_dispatcher u x now s = (Inr (), ?s2)"
    by (simp add: save_dispatcher_def ret_def)
  moreover have "globals ?s1 ''BUCKET_NAME'' = None" using assms by simp
  ultimately show ?thesis
    using save_to_s3_handler_unbound [of ?s1 x now] save_locally_handler_frame [of x ?s2]
    by (elim disjE) simp_all
qed

lemma save_s3_try_body_raises:
  assumes "save_s3_try_body x now s = (Inl e, s1)"
  shows "\<exists>e'. e = Exception e' \<and> messages s1 = messages s"
  using assms
  by (auto simp: save_s3_try_body_def emit_def
      split: option.splits pyval.splits sum.splits)

lemma save_local_try_body_raises:
  assumes "save_local_try_body x s = (Inl e, s1)"
  shows "\<exists>e'. e = Exception e' \<and> s1 = s"
  using assms
  by (auto simp: save_local_try_body_def emit_def
      split: option.splits pyval.splits sum.splits)

lemma save_to_s3_handler_reports:
  assumes "save_s3_try_body x now s = (Inl ex, s1)"
  shows "\<exists>e. ex = Exception e \<and>
           save_to_s3_handler x now s =
             (Inr (), s1\<lparr>messages := messages s @
                [St_error (''Error saving to S3: '' @ str_exception e)]\<rparr>)"
proof -
  from save_s3_try_body_raises [OF assms] obtain e where
    e: "ex = Exception e" and m: "messages s1 = messages s"
    by blast
  with assms have "save_to_s3_handler x now s =
      (Inr (), s1\<lparr>messages := messages s @ [St_error (''Error saving to S3: '' @ str_exception e)]\<rparr>)"
    by (simp add: save_to_s3_handler_def try_except_def emit_def)
  with e show ?thesis by blast
qed

lemma save_locally_handler_reports:
  assumes "save_local_try_body x s = (Inl ex, s1)"
  shows "\<exists>e. ex = Exception e \<and>
           save_locally_handler x s =
             (Inr (), s\<lparr>messages := messages s @
                [St_error (''Error saving locally: '' @ str_exception e)]\<rparr>)"
proof -
  from save_local_try_body_raises [OF assms] obtain e where
    e: "ex = Exception e" and m: "s1 = s"
    by blast
  with assms have "save_locally_handler x s =
      (Inr (), s\<lparr>messages := messages s @ [St_error (''Error saving locally: '' @ str_exception e)]\<rparr>)"
    by (simp add: save_locally_handler_def try_except_def emit_def)
  with e show ?thesis by blast
qed

lemma save_s3_try_body_returns:
  assumes "save_s3_try_body x now s = (Inr v, s1)"
  shows "\<exists>b k. globals s ''bucket'' = Some (Str b) \<and> globals s ''key'' = Some (Str k) \<and>
           messages s1 = messages s @
             [St_success (''Saved to S3: s3://'' @ b @ ''/'' @ k),
              St_info (''Backup created at s3://'' @ b @ ''/'' @ k)]"
  using assms
  by (auto simp: save_s3_try_body_def emit_def
      split: option.splits pyval.splits sum.splits)

lemma save_local_try_body_returns:
  assumes "save_local_try_body x s = (Inr v, s1)"
  shows "\<exists>p. globals s ''save_path'' = Some (Str p) \<and>
           messages s1 = messages s @ [St_success (''Saved locally as '' @ p)]"
  using assms
  by (auto simp: save_local_try_body_def emit_def
      split: option.splits pyval.splits sum.splits)

lemma save_dispatcher_s3:
  assumes "save_option u = ''S3''" and "save_s3_clicked u"
  shows "save_dispatcher u x now s =
           save_to_s3_handler x now (s\<lparr>globals := (globals s)(''save_option'' \<mapsto> Str ''S3'')\<rparr>)"
  using assms by (simp add: save_dispatcher_def)

lemma save_dispatcher_local:
  assumes "save_option u \<noteq> ''S3''" and "save_local_clicked u"
  shows "save_dispatcher u x now s =
           save_locally_handler x
             (s\<lparr>globals := (globals s)(''save_option'' \<mapsto> Str (save_option u),
                                        ''save_path'' \<mapsto> Str (save_path u))\<rparr>)"
  using assms by (simp add: save_dispatcher_def)

lemma save_dispatcher_s3_reports:
  assumes "save_option u = ''S3''" and "save_s3_clicked u"
    and "save_s3_try_body x now (s\<lparr>globals := (globals s)(''save_option'' \<mapsto> Str ''S3'')\<rparr>) =
           (Inl ex, s1)"
  shows "\<exists>e. ex = Exception e \<and>
           save_dispatcher u x now s =
             (Inr (), s1\<lparr>messages := messages s @
                [St_error (''Error saving to S3: '' @ str_exception e)]\<rparr>)"
  using save_to_s3_handler_reports [OF assms(3)] save_dispatcher_s3 [OF assms(1,2), of x now s]
  by simp

lemma save_dispatcher_local_reports:
  assumes "save_option u \<noteq> ''S3''" and "save_local_clicked u"
    and "save_local_try_body x
           (s\<lparr>globals := (globals s)(''save_option'' \<mapsto> Str (save_option u),
                                      ''save_path'' \<mapsto> Str (save_path u))\<rparr>) = (Inl ex, s1)"
  shows "\<exists>e. ex = Exception e \<and>
           save_dispatcher u x now s =
             (Inr (), s\<lparr>globals := (globals s)(''save_option'' \<mapsto> Str (save_option u),
                                                 ''save_path'' \<mapsto> Str (save_path u)),
                         messages := messages s @
                           [St_error (''Error saving locally: '' @ str_exception e)]\<rparr>)"
  using save_locally_handler_reports [OF assms(3)] save_dispatcher_local [OF assms(1,2), of x now s]
  by simp

lemma save_dispatcher_s3_outcome:
  assumes "save_option u = ''S3''" and "save_s3_clicked u"
  shows "(\<exists>e. messages (snd (save_dispatcher u x now s)) =
               messages s @ [St_error (''Error saving to S3: '' @ str_exception e)]) \<or>
         (\<exists>b k. messages (snd (save_dispatcher u x now s)) =
               messages s @ [St_success (''Saved to S3: s3://'' @ b @ ''/'' @ k),
                             St_info (''Backup created at s3://'' @ b @ ''/'' @ k)])"
proof -
  let ?s0 = "s\<lparr>globals := (globals s)(''save_option'' \<mapsto> Str ''S3'')\<rparr>"
  obtain r s1 where body: "save_s3_try_body x now ?s0 = (r, s1)"
    by (cases "save_s3_try_body x now ?s0")
  show ?thesis
  proof (cases r)
    case (Inl ex)
    with body save_dispatcher_s3_reports [OF assms, of x now s ex s1] show ?thesis
      by auto
  next
    case (Inr v)
    with body save_s3_try_body_returns [of x now ?s0 v s1]
    obtain b k where "messages s1 = messages s @
             [St_success (''Saved to S3: s3://'' @ b @ ''/'' @ k),
              St_info (''Backup created at s3://'' @ b @ ''/'' @ k)]"
      by auto
    moreover from body Inr have "save_dispatcher u x now s = (Inr v, s1)"
      by (simp add: save_dispatcher_s3 [OF assms] save_to_s3_handler_def try_except_def)
    ultimately show ?thesis by auto
  qed
qed

lemma save_dispatcher_local_outcome:
  assumes "save_option u \<noteq> ''S3''" and "save_local_clicked u"
  shows "(\<exists>e. messages (snd (save_dispatcher u x now s)) =
               messages s @ [St_error (''Error saving locally: '' @ str_exception e)] \<and>
             local_fs (snd (save_dispatcher u x now s)) = local_fs s) \<or>
         messages (snd (save_dispatcher u x now s)) =
               messages s @ [St_success (''Saved locally as '' @ save_path u)]"
proof -
  let ?s0 = "s\<lparr>globals := (globals s)(''save_option'' \<mapsto> Str (save_option u),
                                        ''save_path'' \<mapsto> Str (save_path u))\<rparr>"
  obtain r s1 where body: "save_local_try_body x ?s0 = (r, s1)"
    by (cases "save_local_try_body x ?s0")
  show ?thesis
  proof (cases r)
    case (Inl ex)
    with body save_dispatcher_local_reports [OF assms, of x s ex s1 now] show ?thesis
      by auto
  next
    case (Inr v)
    with body save_local_try_body_returns [of x ?s0 v s1]
    have "messages s1 = messages s @ [St_success (''Saved locally as '' @ save_path u)]"
      by auto
    moreover from body Inr have "save_dispatcher u x now s = (Inr v, s1)"
      by (simp add: save_dispatcher_local [OF assms] save_locally_handler_def try_except_def)
    ultimately show ?thesis by auto
  qed
qed

lemma save_dispatcher_local_fails:
  assumes "save_option u \<noteq> ''S3''" and "save_local_clicked u"
    and "globals s ''edited_df'' = Some (Frame E)"
    and "to_parquet x E = Inl e \<or>
         (\<exists>body. to_parquet x E = Inr body) \<and> fs_fault x (save_path u) = Some e"
  shows "messages (snd (save_dispatcher u x now s)) =
           messages s @ [St_error (''Error saving locally: '' @ str_exception e)] \<and>
         local_fs (snd (save_dispatcher u x now s)) = local_fs s"
  using assms
  by (auto simp: save_dispatcher_def save_locally_handler_def save_local_try_body_def
      try_except_def emit_def)

lemma save_dispatcher_s3_copy_fails:
  assumes "save_option u = ''S3''" and "save_s3_clicked u"
    and "globals s ''BUCKET_NAME'' = Some (Str d)" and "globals s ''bucket'' = Some (Str b)"
    and "globals s ''key'' = Some (Str k)"
    and "s3_fault x (CopyObject d b k (backup_key_of now)) = Some e \<or>
         s3_fault x (CopyObject d b k (backup_key_of now)) = None \<and> s3_store s (b, k) = None \<and>
           e = ClientError ''NoSuchKey''"
  shows "messages (snd (save_dispatcher u x now s)) =
           messages s @ [St_error (''Error saving to S3: '' @ str_exception e)] \<and>
         s3_store (snd (save_dispatcher u x now s)) = s3_store s"
  using assms
  by (auto simp: save_dispatcher_def save_to_s3_handler_def save_s3_try_body_def
      try_except_def emit_def)

lemma save_dispatcher_s3_write_fails:
  assumes "save_option u = ''S3''" and "save_s3_clicked u"
    and "globals s ''BUCKET_NAME'' = Some (Str d)" and "globals s ''bucket'' = Some (Str b)"
    and "globals s ''key'' = Some (Str k)" and "globals s ''edited_df'' = Some (Frame E)"
    and "s3_fault x (CopyObject d b k (backup_key_of now)) = None"
    and "s3_store s (b, k) = Some v"
    and "to_parquet x E = Inl e \<or>
         (\<exists>body. to_parquet x E = Inr body \<and> s3_fault x (PutObject b k body) = Some e)"
  shows "messages (snd (save_dispatcher u x now s)) =
           messages s @ [St_error (''Error saving to S3: '' @ str_exception e)] \<and>
         (\<forall>a. a \<noteq> (d, backup_key_of now) \<longrightarrow>
              s3_store (snd (save_dispatcher u x now s)) a = s3_store s a)"
  using assms
  by (auto simp: save_dispatcher_def save_to_s3_handler_def save_s3_try_body_def
      try_except_def emit_def)

text \<open>
  What a pass is made of.
\<close>

lemma run_pass_split:
  obtains (stopped) s1 where "upto_load c u x (fresh s) = (Inl StopException, s1)"
      "run_pass c u x now s = (Stopped, s1)"
  | (completed) s1 E ms where "upto_load c u x (fresh s) = (Inr (), s1)"
      "run_pass c u x now s =
         (Completed, snd (save_dispatcher u x now
            (s1\<lparr>messages := messages s1 @ ms,
                 globals := (globals s1)(''main_editor'' \<mapsto> Obj, ''edited_df'' \<mapsto> Frame E)\<rparr>)))"
proof -
  obtain r s1 where ul: "upto_load c u x (fresh s) = (r, s1)"
    by (cases "upto_load c u x (fresh s)")
  note fr = upto_load_frame [OF ul]
  from fr consider "r = Inl StopException" | "r = Inr ()" by blast
  then show thesis
  proof cases
    case 1
    with ul have "run_pass c u x now s = (Stopped, s1)"
      by (simp add: run_pass_def script_upto_load seq_Inl)
    with 1 ul show thesis by (auto intro: stopped)
  next
    case 2
    with fr obtain T where T: "globals s1 ''df'' = Some (Frame T)" by blast
    let ?s1' = "s1\<lparr>globals := (globals s1)(''main_editor'' \<mapsto> Obj)\<rparr>"
    have "globals ?s1' ''df'' = Some (Frame T)" using T by simp
    from edit_session_run [OF this, of u] obtain E ms where
      es: "edit_session u ?s1' =
             (Inr (), ?s1'\<lparr>messages := messages ?s1' @ ms,
                            globals := (globals ?s1')(''edited_df'' \<mapsto> Frame E)\<rparr>)"
      by blast
    let ?s2 = "s1\<lparr>messages := messages s1 @ ms,
                 globals := (globals s1)(''main_editor'' \<mapsto> Obj, ''edited_df'' \<mapsto> Frame E)\<rparr>"
    from es have es': "edit_session u ?s1' = (Inr (), ?s2)" by simp
    have "script c u x now (fresh s) = save_dispatcher u x now ?s2"
      using ul 2 es' by (simp add: script_upto_load seq_Inr)
    moreover obtain s3 where "save_dispatcher u x now ?s2 = (Inr (), s3)"
      using save_dispatcher_frame [of u x now ?s2]
      by (cases "save_dispatcher u x now ?s2") auto
    ultimately have "run_pass c u x now s = (Completed, snd (save_dispatcher u x now ?s2))"
      by (simp add: run_pass_def)
    with ul 2 show thesis by (auto intro: completed)
  qed
qed

lemma run_pass_cache:
  assumes "cache s a = Some t"
  shows "cache (snd (run_pass c u x now s)) a = Some t"
proof (cases rule: run_pass_split [of c u x s now])
  case (stopped s1)
  from upto_load_frame [OF stopped(1)] assms have "cache s1 a = Some t" by blast
  with stopped show ?thesis by simp
next
  case (completed s1 E ms)
  from upto_load_frame [OF completed(1)] assms have "cache s1 a = Some t" by blast
  with completed show ?thesis
    by (simp add: save_dispatcher_frame)
qed

lemma run_session_cache:
  "cache s a = Some t \<Longrightarrow> cache (run_session c evs s) a = Some t"
proof (induction evs arbitrary: s)
  case Nil
  then show ?case by simp
next
  case (Cons e evs)
  have "cache (run_event c e s) a = Some t"
    using Cons.prems by (cases e) (simp_all add: run_pass_cache)
  then show ?case using Cons.IH by simp
qed

lemma upto_load_cache_hit:
  assumes "mode u = ''Use S3 file''"
    and "cache s (BUCKET_NAME_secret c, PARQUET_KEY_secret c) = Some t"
  shows "\<exists>s1. upto_load c u x (fresh s) = (Inr (), s1) \<and> globals s1 ''df'' = Some (Frame t) \<and>
              s3_log s1 = s3_log s \<and> globals s1 ''BUCKET_NAME'' = None"
  using assms
  by (simp add: upto_load_def startup_def load_data_def load_try_body_def try_except_def
      store_name_def emit_def ret_def fresh_def)

lemma upto_load_cache_miss:
  assumes "mode u = ''Use S3 file''"
    and "cache s (BUCKET_NAME_secret c, PARQUET_KEY_secret c) = None"
    and "s3_fault x (GetObject (BUCKET_NAME_secret c) (PARQUET_KEY_secret c)) = None"
    and "s3_store s (BUCKET_NAME_secret c, PARQUET_KEY_secret c) = Some body"
    and "read_parquet x body = Inr t"
  shows "\<exists>s1. upto_load c u x (fresh s) = (Inr (), s1) \<and> globals s1 ''df'' = Some (Frame t) \<and>
              s3_log s1 = s3_log s @
                [(GetObject (BUCKET_NAME_secret c) (PARQUET_KEY_secret c), True)] \<and>
              cache s1 (BUCKET_NAME_secret c, PARQUET_KEY_secret c) = Some t"
  using assms
  by (simp add: upto_load_def startup_def load_data_def load_try_body_def try_except_def
      store_name_def emit_def ret_def fresh_def)

lemma run_pass_after_load:
  assumes "upto_load c u x (fresh s) = (Inr (), s1)"
  shows "\<exists>s'. run_pass c u x now s = (Completed, s') \<and> globals s' ''df'' = globals s1 ''df'' \<and>
              s3_log s' = s3_log s1 \<and> s3_store s' = s3_store s1 \<and> cache s' = cache s1"
proof (cases rule: run_pass_split [of c u x s now])
  case (stopped s0)
  with assms show ?thesis by simp
next
  case (completed s0 E ms)
  with assms have s0: "s0 = s1" by simp
  let ?s2 = "s1\<lparr>messages := messages s1 @ ms,
               globals := (globals s1)(''main_editor'' \<mapsto> Obj, ''edited_df'' \<mapsto> Frame E)\<rparr>"
  from upto_load_frame [OF assms] have "globals ?s2 ''BUCKET_NAME'' = None" by simp
  from save_dispatcher_quiet [OF this, of u x now] save_dispatcher_frame [of u x now ?s2]
    completed(2)
  show ?thesis unfolding s0 by simp
qed

lemmas load_defs = upto_load_def startup_def load_data_def load_try_body_def try_except_def
    store_name_def emit_def ret_def fresh_def st_stop_def raise_def

lemma halt_fault:
  assumes "mode u = ''Use S3 file''" "cache s (BUCKET_NAME_secret c, PARQUET_KEY_secret c) = None"
    "s3_fault x (GetObject (BUCKET_NAME_secret c) (PARQUET_KEY_secret c)) = Some e"
  shows "\<exists>s1. halted_with c u x s e s1"
  using assms by (simp add: halted_with_def load_defs)

lemma halt_missing:
  assumes "mode u = ''Use S3 file''" "cache s (BUCKET_NAME_secret c, PARQUET_KEY_secret c) = None"
    "s3_fault x (GetObject (BUCKET_NAME_secret c) (PARQUET_KEY_secret c)) = None"
    "s3_store s (BUCKET_NAME_secret c, PARQUET_KEY_secret c) = None"
  shows "\<exists>s1. halted_with c u x s (ClientError ''NoSuchKey'') s1"
  using assms by (simp add: halted_with_def load_defs)

lemma halt_decode:
  assumes "mode u = ''Use S3 file''" "cache s (BUCKET_NAME_secret c, PARQUET_KEY_secret c) = None"
    "s3_fault x (GetObject (BUCKET_NAME_secret c) (PARQUET_KEY_secret c)) = None"
    "s3_store s (BUCKET_NAME_secret c, PARQUET_KEY_secret c) = Some body"
    "read_parquet x body = Inl e"
  shows "\<exists>s1. halted_with c u x s e s1"
  using assms by (simp add: halted_with_def load_defs)

lemma halt_upload:
  assumes "mode u \<noteq> ''Use S3 file''" "uploaded u = Some f" "read_parquet x f = Inl e"
  shows "\<exists>s1. halted_with c u x s e s1"
  using assms by (simp add: halted_with_def load_defs)

subsection \<open>The concrete installation, run\<close>

lemma demo_upto_load:
  assumes "mode u = ''Use S3 file''"
  shows "upto_load demo_secrets u demo_env (fresh demo_state) =
     (Inr (),
      demo_state
        \<lparr>globals :=
           [''st'' \<mapsto> Obj, ''pd'' \<mapsto> Obj, ''os'' \<mapsto> Obj, ''datetime'' \<mapsto> Obj, ''boto3'' \<mapsto> Obj,
            ''BytesIO'' \<mapsto> Obj, ''s3'' \<mapsto> Obj, ''bucket'' \<mapsto> Str ''controle-de-processos'',
            ''key'' \<mapsto> Str ''Controle_de_Processos.parquet'', ''read_from_s3'' \<mapsto> Obj,
            ''write_to_s3'' \<mapsto> Obj, ''mode'' \<mapsto> Str ''Use S3 file'',
            ''df'' \<mapsto> Frame demo_table],
         messages :=
           [Sidebar_success
              ''Loaded from S3: s3://controle-de-processos/Controle_de_Processos.parquet''],
         s3_log :=
           [(GetObject ''controle-de-processos'' ''Controle_de_Processos.parquet'', True)],
         cache :=
           [(''controle-de-processos'', ''Controle_de_Processos.parquet'') \<mapsto> demo_table]\<rparr>)"
  using assms
  by (simp add: upto_load_def startup_def load_data_def load_try_body_def try_except_def
      store_name_def emit_def ret_def fresh_def log_call_def
      demo_secrets_def demo_env_def demo_state_def)

lemma demo_upto_save:
  "upto_save demo_secrets demo_ui demo_env (fresh demo_state) =
     (Inr (),
      demo_state
        \<lparr>globals :=
           [''st'' \<mapsto> Obj, ''pd'' \<mapsto> Obj, ''os'' \<mapsto> Obj, ''datetime'' \<mapsto> Obj, ''boto3'' \<mapsto> Obj,
            ''BytesIO'' \<mapsto> Obj, ''s3'' \<mapsto> Obj, ''bucket'' \<mapsto> Str ''controle-de-processos'',
            ''key'' \<mapsto> Str ''Controle_de_Processos.parquet'', ''read_from_s3'' \<mapsto> Obj,
            ''write_to_s3'' \<mapsto> Obj, ''mode'' \<mapsto> Str ''Use S3 file'',
            ''df'' \<mapsto> Frame demo_table, ''main_editor'' \<mapsto> Obj,
            ''edited_df'' \<mapsto> Frame demo_table],
         messages :=
           [Sidebar_success
              ''Loaded from S3: s3://controle-de-processos/Controle_de_Processos.parquet'',
            St_error ''Incorrect code. No rows were deleted.''],
         s3_log :=
           [(GetObject ''controle-de-processos'' ''Controle_de_Processos.parquet'', True)],
         cache :=
           [(''controle-de-processos'', ''Controle_de_Processos.parquet'') \<mapsto> demo_table]\<rparr>)"
  by (simp add: upto_save_def startup_def load_data_def load_try_body_def try_except_def
      edit_session_def main_editor_def store_name_def emit_def ret_def fresh_def log_call_def
      demo_secrets_def demo_ui_def demo_env_def demo_state_def)

lemma demo_keep_upto_save:
  "upto_save demo_secrets demo_ui_keep demo_env (fresh demo_state) =
     (Inr (),
      demo_state
        \<lparr>globals :=
           [''st'' \<mapsto> Obj, ''pd'' \<mapsto> Obj, ''os'' \<mapsto> Obj, ''datetime'' \<mapsto> Obj, ''boto3'' \<mapsto> Obj,
            ''BytesIO'' \<mapsto> Obj, ''s3'' \<mapsto> Obj, ''bucket'' \<mapsto> Str ''controle-de-processos'',
            ''key'' \<mapsto> Str ''Controle_de_Processos.parquet'', ''read_from_s3'' \<mapsto> Obj,
            ''write_to_s3'' \<mapsto> Obj, ''mode'' \<mapsto> Str ''Use S3 file'',
            ''df'' \<mapsto> Frame demo_table, ''main_editor'' \<mapsto> Obj,
            ''edited_df'' \<mapsto> Frame demo_table],
         messages :=
           [Sidebar_success
              ''Loaded from S3: s3://controle-de-processos/Controle_de_Processos.parquet''],
         s3_log :=
           [(GetObject ''controle-de-processos'' ''Controle_de_Processos.parquet'', True)],
         cache :=
           [(''controle-de-processos'', ''Controle_de_Processos.parquet'') \<mapsto> demo_table]\<rparr>)"
proof -
  have "mode demo_ui_keep = ''Use S3 file''"
    by (simp add: demo_ui_keep_def demo_ui_def)
  from demo_upto_load [OF this] show ?thesis
    by (simp add: upto_save_upto_load seq_Inr edit_session_def main_editor_def store_name_def
        ret_def demo_ui_keep_def demo_ui_def demo_state_def)
qed

lemma demo_bound_run:
  "save_to_s3_handler demo_env demo_date demo_loaded_bound =
     (Inr (),
      demo_loaded_bound
        \<lparr>globals := (globals demo_loaded_bound)(''backup_key'' \<mapsto> Str (backup_key_of demo_date)),
         messages :=
           [St_success ''Saved to S3: s3://controle-de-processos/Controle_de_Processos.parquet'',
            St_info ''Backup created at s3://controle-de-processos/Controle_de_Processos.parquet''],
         s3_store := (s3_store demo_loaded_bound)
           ((''controle-de-processos'', backup_key_of demo_date) \<mapsto> ''PAR1-three-rows'',
            (''controle-de-processos'', ''Controle_de_Processos.parquet'') \<mapsto> ''PAR1-two-rows''),
         s3_log :=
           [(CopyObject ''controle-de-processos'' ''controle-de-processos''
               ''Controle_de_Processos.parquet'' (backup_key_of demo_date), True),
            (PutObject ''controle-de-processos'' ''Controle_de_Processos.parquet''
               ''PAR1-two-rows'', True)]\<rparr>)"
  by (simp add: save_to_s3_handler_def save_s3_try_body_def try_except_def emit_def
      demo_loaded_bound_def demo_loaded_def demo_state_def demo_env_def
      demo_table_def delete_last_row_def log_call_def)

lemma demo_local_body:
  "save_local_try_body demo_env_readonly_disk demo_local_state =
     (Inl (Exception (OSError ''[Errno 13] Permission denied'')), demo_local_state)"
  by (simp add: save_local_try_body_def demo_env_readonly_disk_def demo_env_def
      demo_local_state_def demo_loaded_def demo_state_def demo_table_def delete_last_row_def)

section \<open>The load\<close>

text \<open>
  C8. A load that fails is caught, reported and ends the pass, in either mode. In the
  remote mode the read can fail on a cache miss: the call on S3 fails, the object is
  missing, or the bytes do not decode; in the upload mode the uploaded bytes do not
  decode. In each case the pass is stopped, its only message is the error with the text
  of the exception, neither \<open>df\<close> nor \<open>edited_df\<close> nor \<open>save_option\<close> is bound
  (the edit session and the save section have not run), and S3, the disk and the cache
  are unchanged.
\<close>

theorem load_failure_halts:
  assumes addr: "b = BUCKET_NAME_secret c" "k = PARQUET_KEY_secret c"
    and cause:
      "mode u = ''Use S3 file'' \<and> cache s (b, k) = None \<and>
         (s3_fault x (GetObject b k) = Some e \<or>
          s3_fault x (GetObject b k) = None \<and> s3_store s (b, k) = None \<and>
            e = ClientError ''NoSuchKey'' \<or>
          s3_fault x (GetObject b k) = None \<and>
            (\<exists>body. s3_store s (b, k) = Some body \<and> read_parquet x body = Inl e)) \<or>
       mode u \<noteq> ''Use S3 file'' \<and> (\<exists>f. uploaded u = Some f \<and> read_parquet x f = Inl e)"
  shows "\<exists>s'. run_pass c u x now s = (Stopped, s') \<and>
              messages s' = [St_error (''Error loading data: '' @ str_exception e)] \<and>
              globals s' ''df'' = None \<and> globals s' ''edited_df'' = None \<and>
              globals s' ''save_option'' = None \<and>
              s3_store s' = s3_store s \<and> local_fs s' = local_fs s \<and> cache s' = cache s"
proof -
  from cause [unfolded addr] have "\<exists>s1. halted_with c u x s e s1"
    apply (elim disjE conjE exE)
    subgoal by (rule halt_fault)
    subgoal by (simp add: halt_missing)
    subgoal by (rule halt_decode)
    subgoal by (rule halt_upload)
    done
  then obtain s1 where h: "halted_with c u x s e s1" ..
  then have "upto_load c u x (fresh s) = (Inl StopException, s1)"
    by (simp add: halted_with_def)
  then have "run_pass c u x now s = (Stopped, s1)"
    by (simp add: run_pass_def script_upto_load seq_Inl)
  with h show ?thesis
    by (simp add: halted_with_def)
qed

theorem load_failure_halts_witness:
  "\<exists>s'. run_pass demo_secrets demo_ui demo_env demo_date demo_empty_bucket = (Stopped, s') \<and>
        messages s' = [St_error ''Error loading data: NoSuchKey''] \<and>
        globals s' ''df'' = None \<and> globals s' ''edited_df'' = None \<and>
        globals s' ''save_option'' = None \<and>
        s3_store s' = Map.empty \<and> local_fs s' = Map.empty \<and> cache s' = Map.empty"
proof -
  let ?b = "''controle-de-processos''" and ?k = "''Controle_de_Processos.parquet''"
  have addr: "?b = BUCKET_NAME_secret demo_secrets" "?k = PARQUET_KEY_secret demo_secrets"
    by (simp_all add: demo_secrets_def)
  have "mode demo_ui = ''Use S3 file''" "cache demo_empty_bucket (?b, ?k) = None"
    "s3_fault demo_env (GetObject ?b ?k) = None" "s3_store demo_empty_bucket (?b, ?k) = None"
    by (simp_all add: demo_ui_def demo_env_def demo_empty_bucket_def demo_state_def)
  then have cause:
    "mode demo_ui = ''Use S3 file'' \<and> cache demo_empty_bucket (?b, ?k) = None \<and>
       (s3_fault demo_env (GetObject ?b ?k) = Some (ClientError ''NoSuchKey'') \<or>
        s3_fault demo_env (GetObject ?b ?k) = None \<and> s3_store demo_empty_bucket (?b, ?k) = None \<and>
          ClientError ''NoSuchKey'' = ClientError ''NoSuchKey'' \<or>
        s3_fault demo_env (GetObject ?b ?k) = None \<and>
          (\<exists>body. s3_store demo_empty_bucket (?b, ?k) = Some body \<and>
             read_parquet demo_env body = Inl (ClientError ''NoSuchKey''))) \<or>
     mode demo_ui \<noteq> ''Use S3 file'' \<and>
       (\<exists>f. uploaded demo_ui = Some f \<and> read_parquet demo_env f = Inl (ClientError ''NoSuchKey''))"
    by blast
  have store: "s3_store demo_empty_bucket = Map.empty" "local_fs demo_empty_bucket = Map.empty"
    "cache demo_empty_bucket = Map.empty"
    by (simp_all add: demo_empty_bucket_def demo_state_def)
  from load_failure_halts [OF addr cause, of demo_date] show ?thesis
    unfolding store by simp
qed

section \<open>The edit session\<close>

text \<open>
  C2. When the grid returns fewer rows than the table it was given, the confirm button
  is activated and the entered code is not "125", \<open>main_editor\<close> reports the error and
  returns the original table, whatever the grid returned (deleted rows and edited cells
  alike), and line 95 binds \<open>edited_df\<close> to it.
\<close>

theorem wrong_code_reverts_to_original:
  assumes "len (grid u T) < len T" and "confirm_clicked u" and "confirm_code u \<noteq> ''125''"
  shows "main_editor u T s =
           (Inr T, s\<lparr>messages := messages s @ [St_error ''Incorrect code. No rows were deleted.'']\<rparr>) \<and>
         (globals s ''df'' = Some (Frame T) \<longrightarrow>
            globals (snd (edit_session u s)) ''edited_df'' = Some (Frame T))"
  using assms by (simp add: main_editor_def edit_session_def store_name_def ret_def)

theorem wrong_code_reverts_to_original_witness:
  "main_editor demo_ui demo_table demo_state =
     (Inr demo_table,
      demo_state\<lparr>messages := [St_error ''Incorrect code. No rows were deleted.'']\<rparr>)"
  using wrong_code_reverts_to_original [of demo_ui demo_table demo_state]
  by (simp add: demo_ui_def demo_state_def)

text \<open>
  C3. When the grid returns r rows for a table of R rows, r < R, the confirm button is
  activated and the entered code is exactly "125", \<open>main_editor\<close> returns the table of
  r rows, and its success message is "Deleted n row(s)" where n is the decimal numeral
  of R - r.
\<close>

theorem right_code_accepts_deletion:
  assumes "len (grid u T) < len T" and "confirm_clicked u" and "confirm_code u = ''125''"
  shows "main_editor u T s =
           (Inr (grid u T),
            s\<lparr>messages := messages s @
                 [St_success (''Deleted '' @ str_nat (len T - len (grid u T)) @ '' row(s)'')]\<rparr>) \<and>
         read_nat (str_nat (len T - len (grid u T))) = len T - len (grid u T)"
  using assms by (simp add: main_editor_def ret_def str_int_diff read_nat_str_nat)

theorem right_code_accepts_deletion_witness:
  "main_editor (demo_ui\<lparr>confirm_code := ''125''\<rparr>) demo_table demo_state =
     (Inr (delete_last_row demo_table),
      demo_state\<lparr>messages := [St_success ''Deleted 1 row(s)'']\<rparr>)"
  using right_code_accepts_deletion [of "demo_ui\<lparr>confirm_code := ''125''\<rparr>" demo_table demo_state]
  by (simp add: demo_ui_def demo_state_def str_nat.simps digit_char_def)

text \<open>
  C4. When the grid returns fewer rows and the confirm button is not activated in the
  pass, \<open>main_editor\<close> returns the reduced table and shows nothing, whatever the code
  field holds. The pass goes on with it: saved to the local disk in the same pass, the
  file holds the encoding of the reduced table, and no confirmation was asked for.
\<close>

theorem unconfirmed_deletion_is_saved:
  assumes loaded: "upto_load c u x (fresh s) = (Inr (), s1)"
    and df: "globals s1 ''df'' = Some (Frame T)"
    and fewer: "len (grid u T) < len T"
    and unconfirmed: "\<not> confirm_clicked u"
    and local: "save_option u \<noteq> ''S3''" "save_local_clicked u"
    and codec: "to_parquet x (grid u T) = Inr body"
    and disk: "fs_fault x (save_path u) = None"
  shows "main_editor u T s1 = (Inr (grid u T), s1) \<and>
         (\<exists>s'. run_pass c u x now s = (Completed, s') \<and>
               globals s' ''edited_df'' = Some (Frame (grid u T)) \<and>
               local_fs s' = (local_fs s1)(save_path u \<mapsto> body) \<and>
               messages s' = messages s1 @ [St_success (''Saved locally as '' @ save_path u)])"
proof -
  have me: "main_editor u T s = (Inr (grid u T), s)" for s
    using fewer unconfirmed by (simp add: main_editor_def ret_def)
  let ?s2 = "s1\<lparr>globals := (globals s1)(''main_editor'' \<mapsto> Obj, ''edited_df'' \<mapsto> Frame (grid u T))\<rparr>"
  have "script c u x now (fresh s) = save_dispatcher u x now ?s2"
    using loaded df
    by (simp add: script_upto_load seq_Inr edit_session_def me store_name_def)
  moreover have "globals ?s2 ''edited_df'' = Some (Frame (grid u T))" by simp
  ultimately have "script c u x now (fresh s) =
      (Inr (), ?s2\<lparr>globals := (globals ?s2)
                         (''save_option'' \<mapsto> Str (save_option u), ''save_path'' \<mapsto> Str (save_path u)),
                       local_fs := (local_fs ?s2)(save_path u \<mapsto> body),
                       messages := messages ?s2 @ [St_success (''Saved locally as '' @ save_path u)]\<rparr>)"
    using save_dispatcher_local_ok [OF local _ codec disk, of ?s2 now] by simp
  then show ?thesis
    by (simp add: run_pass_def me)
qed

theorem unconfirmed_deletion_is_saved_witness:
  "\<exists>s'. run_pass demo_secrets demo_ui_local demo_env demo_date demo_state = (Completed, s') \<and>
        globals s' ''edited_df'' = Some (Frame (delete_last_row demo_table)) \<and>
        local_fs s' = [''Controle_de_Processos_edited.parquet'' \<mapsto> ''PAR1-two-rows''] \<and>
        messages s' =
          [Sidebar_success
             ''Loaded from S3: s3://controle-de-processos/Controle_de_Processos.parquet'',
           St_success ''Saved locally as Controle_de_Processos_edited.parquet'']"
proof -
  have "mode demo_ui_local = ''Use S3 file''"
    by (simp add: demo_ui_local_def demo_ui_def)
  from unconfirmed_deletion_is_saved
      [OF demo_upto_load [OF this], of demo_table "''PAR1-two-rows''" demo_date]
  show ?thesis
    by (simp add: demo_ui_local_def demo_ui_def demo_env_def demo_state_def
        demo_table_def delete_last_row_def len_def)
qed

section \<open>The remote save\<close>

text \<open>
  C1. In every run of the handler of "Save to S3", from any state and namespace and
  whatever S3 and the codec do: a \<open>put_object\<close> on an address is preceded, among the
  calls of the run, by a \<open>copy_object\<close> from that address to the backup key that
  succeeded; when a \<open>copy_object\<close> failed, the run has no \<open>put_object\<close>; and
  when the run has a \<open>put_object\<close>, the object had a prior version and the backup
  address holds it at the end of the run (unless the backup address is the primary
  address itself). In the script's own namespace the run makes no call at all, see C5;
  the example after the theorem runs the handler in a namespace that binds
  \<open>BUCKET_NAME\<close>.
\<close>

theorem backup_copy_precedes_write:
  assumes run: "save_to_s3_handler x now s = (r, s')"
  shows "(\<forall>before after b k body ok.
            new_calls s s' = before @ (PutObject b k body, ok) # after \<longrightarrow>
            (\<exists>d. (CopyObject d b k (backup_key_of now), True) \<in> set before)) \<and>
         ((\<exists>d b k bk. (CopyObject d b k bk, False) \<in> set (new_calls s s')) \<longrightarrow>
            (\<forall>b k body ok. (PutObject b k body, ok) \<notin> set (new_calls s s'))) \<and>
         s3_log s' = s3_log s @ new_calls s s' \<and>
         (\<forall>b k body ok.
            (PutObject b k body, ok) \<in> set (new_calls s s') \<longrightarrow>
            (\<exists>d v. (CopyObject d b k (backup_key_of now), True) \<in> set (new_calls s s') \<and>
                   s3_store s (b, k) = Some v \<and>
                   ((d, backup_key_of now) \<noteq> (b, k) \<longrightarrow>
                      s3_store s' (d, backup_key_of now) = Some v)))"
proof -
  from run have s': "s' = snd (save_to_s3_handler x now s)" by simp
  have content: "\<forall>b k body ok.
      (PutObject b k body, ok) \<in> set (new_calls s s') \<longrightarrow>
      (\<exists>d v. (CopyObject d b k (backup_key_of now), True) \<in> set (new_calls s s') \<and>
             s3_store s (b, k) = Some v \<and>
             ((d, backup_key_of now) \<noteq> (b, k) \<longrightarrow>
                s3_store s' (d, backup_key_of now) = Some v))"
    unfolding s' using save_to_s3_handler_backup_content [of _ _ _ _ s x now] by blast
  obtain d b k body ok where
    "s3_log s' = s3_log s \<or>
     s3_log s' = s3_log s @ [(CopyObject d b k (backup_key_of now), False)] \<or>
     s3_log s' = s3_log s @ [(CopyObject d b k (backup_key_of now), True)] \<or>
     s3_log s' = s3_log s @ [(CopyObject d b k (backup_key_of now), True), (PutObject b k body, ok)]"
    using save_to_s3_handler_log [of x now s] unfolding s' by blast
  then consider
      (none) "new_calls s s' = []" "s3_log s' = s3_log s"
    | (failed) "new_calls s s' = [(CopyObject d b k (backup_key_of now), False)]"
        "s3_log s' = s3_log s @ [(CopyObject d b k (backup_key_of now), False)]"
    | (copied) "new_calls s s' = [(CopyObject d b k (backup_key_of now), True)]"
        "s3_log s' = s3_log s @ [(CopyObject d b k (backup_key_of now), True)]"
    | (both) "new_calls s s' =
        [(CopyObject d b k (backup_key_of now), True), (PutObject b k body, ok)]"
        "s3_log s' = s3_log s @
        [(CopyObject d b k (backup_key_of now), True), (PutObject b k body, ok)]"
    by (elim disjE) simp_all
  then have order: "(\<forall>before after b k body ok.
            new_calls s s' = before @ (PutObject b k body, ok) # after \<longrightarrow>
            (\<exists>d. (CopyObject d b k (backup_key_of now), True) \<in> set before)) \<and>
         ((\<exists>d b k bk. (CopyObject d b k bk, False) \<in> set (new_calls s s')) \<longrightarrow>
            (\<forall>b k body ok. (PutObject b k body, ok) \<notin> set (new_calls s s'))) \<and>
         s3_log s' = s3_log s @ new_calls s s'"
  proof cases
    case none
    then show ?thesis by simp
  next
    case failed
    then show ?thesis by (auto simp: Cons_eq_append_conv)
  next
    case copied
    then show ?thesis by (auto simp: Cons_eq_append_conv)
  next
    case both
    then show ?thesis by (auto simp: Cons_eq_append_conv)
  qed
  from order content show ?thesis by (intro conjI) (elim conjE, assumption)+
qed

theorem backup_copy_precedes_write_witness:
  "new_calls demo_loaded_bound (snd (save_to_s3_handler demo_env demo_date demo_loaded_bound)) =
     [(CopyObject ''controle-de-processos'' ''controle-de-processos''
         ''Controle_de_Processos.parquet'' (backup_key_of demo_date), True),
      (PutObject ''controle-de-processos'' ''Controle_de_Processos.parquet''
         ''PAR1-two-rows'', True)] \<and>
   (\<exists>d. (CopyObject d ''controle-de-processos'' ''Controle_de_Processos.parquet''
            (backup_key_of demo_date), True) \<in>
         set [(CopyObject ''controle-de-processos'' ''controle-de-processos''
                 ''Controle_de_Processos.parquet'' (backup_key_of demo_date), True)])"
proof -
  let ?s' = "snd (save_to_s3_handler demo_env demo_date demo_loaded_bound)"
  have calls: "new_calls demo_loaded_bound ?s' =
     [(CopyObject ''controle-de-processos'' ''controle-de-processos''
         ''Controle_de_Processos.parquet'' (backup_key_of demo_date), True),
      (PutObject ''controle-de-processos'' ''Controle_de_Processos.parquet''
         ''PAR1-two-rows'', True)]"
    unfolding demo_bound_run
    by (simp add: new_calls_def demo_loaded_bound_def demo_loaded_def demo_state_def)
  have run: "save_to_s3_handler demo_env demo_date demo_loaded_bound = (Inr (), ?s')"
    by (simp add: demo_bound_run)
  from backup_copy_precedes_write [OF run, THEN conjunct1] calls
  have "\<exists>d. (CopyObject d ''controle-de-processos'' ''Controle_de_Processos.parquet''
            (backup_key_of demo_date), True) \<in>
         set [(CopyObject ''controle-de-processos'' ''controle-de-processos''
                 ''Controle_de_Processos.parquet'' (backup_key_of demo_date), True)]"
    by (metis append_Cons append_Nil)
  with calls show ?thesis by blast
qed

text \<open>
  C5. Every pass that reaches the save section with "S3" chosen and "Save to S3"
  activated completes, and the handler does three things only: it binds \<open>backup_key\<close>,
  its \<open>try\<close> body raises \<open>NameError\<close> on the unbound name \<open>BUCKET_NAME\<close>, and
  it shows the error message of that exception. The objects of S3 are those from before
  the pass, and the only calls the pass made on S3 are the reads of the load.
\<close>

theorem remote_save_always_fails:
  assumes reach: "upto_save c u x (fresh s) = (Inr (), s1)"
    and "save_option u = ''S3''" and "save_s3_clicked u"
  shows "run_pass c u x now s =
           (Completed,
            s1\<lparr>globals := (globals s1)
                  (''save_option'' \<mapsto> Str ''S3'', ''backup_key'' \<mapsto> Str (backup_key_of now)),
                messages := messages s1 @
                  [St_error ''Error saving to S3: name 'BUCKET_NAME' is not defined'']\<rparr>) \<and>
         fst (save_s3_try_body x now
                (s1\<lparr>globals := (globals s1)(''save_option'' \<mapsto> Str ''S3'')\<rparr>)) =
           Inl (Exception (NameError ''BUCKET_NAME'')) \<and>
         s3_store s1 = s3_store s \<and>
         (\<forall>e \<in> set (new_calls s s1). \<exists>b k ok. e = (GetObject b k, ok))"
proof -
  from upto_save_frame [OF reach] have unbound: "globals s1 ''BUCKET_NAME'' = None"
    and rest: "s3_store s1 = s3_store s"
      "\<forall>e \<in> set (new_calls s s1). \<exists>b k ok. e = (GetObject b k, ok)"
    by simp_all
  have "script c u x now (fresh s) = save_dispatcher u x now s1"
    using reach by (simp add: script_upto_save seq_Inr)
  moreover have "fst (save_s3_try_body x now
        (s1\<lparr>globals := (globals s1)(''save_option'' \<mapsto> Str ''S3'')\<rparr>)) =
      Inl (Exception (NameError ''BUCKET_NAME''))"
    using unbound by (simp add: save_s3_try_body_unbound)
  ultimately show ?thesis
    using assms(2,3) unbound rest
    by (simp add: run_pass_def save_dispatcher_s3_unbound)
qed

theorem remote_save_always_fails_witness:
  "fst (run_pass demo_secrets demo_ui demo_env demo_date demo_state) = Completed \<and>
   messages (snd (run_pass demo_secrets demo_ui demo_env demo_date demo_state)) =
     [Sidebar_success ''Loaded from S3: s3://controle-de-processos/Controle_de_Processos.parquet'',
      St_error ''Incorrect code. No rows were deleted.'',
      St_error ''Error saving to S3: name 'BUCKET_NAME' is not defined''] \<and>
   s3_store (snd (run_pass demo_secrets demo_ui demo_env demo_date demo_state)) =
     s3_store demo_state \<and>
   s3_log (snd (run_pass demo_secrets demo_ui demo_env demo_date demo_state)) =
     [(GetObject ''controle-de-processos'' ''Controle_de_Processos.parquet'', True)]"
  using remote_save_always_fails [OF demo_upto_save, of demo_date]
  by (simp add: demo_ui_def demo_state_def)

text \<open>
  C6, as the code has it. The handler binds \<open>backup_key\<close> to
  \<open>backups/Controle_de_Processos_<YYYYMMDD>.parquet\<close>: a function of the date of the
  run alone, whatever the primary key, the state and the outcome of the run. It is the
  address of the specification for the keys whose base name is
  \<open>Controle_de_Processos\<close> and whose extension is \<open>parquet\<close>. For a date a
  \<open>datetime\<close> can hold, the date part is eight decimal digits, and runs on two
  different dates bind two different keys.
\<close>

theorem backup_key_from_date_only:
  "globals (snd (save_to_s3_handler x now s)) ''backup_key'' =
     Some (Str (''backups/Controle_de_Processos_'' @ strftime_Ymd now @ ''.parquet'')) \<and>
   (key_base k = ''Controle_de_Processos'' \<and> key_ext k = ''parquet'' \<longrightarrow>
      ''backups/Controle_de_Processos_'' @ strftime_Ymd now @ ''.parquet'' = spec_backup_key k now) \<and>
   (valid_date now \<longrightarrow>
      length (strftime_Ymd now) = 8 \<and> set (strftime_Ymd now) \<subseteq> set ''0123456789'') \<and>
   (valid_date now \<and> valid_date now' \<and>
    globals (snd (save_to_s3_handler x now s)) ''backup_key'' =
      globals (snd (save_to_s3_handler x' now' s')) ''backup_key'' \<longrightarrow> now = now')"
proof -
  have bk: "globals (snd (save_to_s3_handler x now s)) ''backup_key'' =
      Some (Str (''backups/Controle_de_Processos_'' @ strftime_Ymd now @ ''.parquet''))"
    for x now s
    using save_to_s3_handler_backup_key [of x now s] by (simp add: backup_key_of_def)
  have "now = now'"
    if "valid_date now" "valid_date now'"
      "globals (snd (save_to_s3_handler x now s)) ''backup_key'' =
       globals (snd (save_to_s3_handler x' now' s')) ''backup_key''"
  proof -
    from that(3) have "strftime_Ymd now = strftime_Ymd now'"
      by (simp add: bk)
    with that(1,2) show ?thesis by (rule strftime_inj)
  qed
  then show ?thesis
    using strftime_digits [of now]
    by (simp add: bk spec_backup_key_def strftime_length)
qed

theorem backup_key_from_date_only_witness:
  "globals (snd (save_to_s3_handler demo_env demo_date demo_loaded)) ''backup_key'' =
     Some (Str ''backups/Controle_de_Processos_20261104.parquet'') \<and>
   ''backups/Controle_de_Processos_20261104.parquet'' =
     spec_backup_key ''Controle_de_Processos.parquet'' demo_date \<and>
   length (strftime_Ymd demo_date) = 8"
proof -
  have "valid_date demo_date"
    by (simp add: valid_date_def demo_date_def)
  moreover have "key_base ''Controle_de_Processos.parquet'' = ''Controle_de_Processos''"
    "key_ext ''Controle_de_Processos.parquet'' = ''parquet''"
    by (simp_all add: key_base_def key_ext_def key_filename_def)
  ultimately show ?thesis
    using backup_key_from_date_only
      [of demo_env demo_date demo_loaded "''Controle_de_Processos.parquet''"]
    by (simp add: demo_strftime)
qed

text \<open>
  C6, as the claim states it, fails: with the primary key
  \<open>clientes/carteira.parquet\<close> the handler binds
  \<open>backups/Controle_de_Processos_20261104.parquet\<close>, and the address of the
  specification is \<open>backups/carteira_20261104.parquet\<close>.
\<close>

theorem backup_key_from_primary_key_counterexample:
  "globals (snd (save_to_s3_handler demo_env demo_date other_key_state)) ''key'' =
     Some (Str ''clientes/carteira.parquet'') \<and>
   globals (snd (save_to_s3_handler demo_env demo_date other_key_state)) ''backup_key'' =
     Some (Str ''backups/Controle_de_Processos_20261104.parquet'') \<and>
   spec_backup_key ''clientes/carteira.parquet'' demo_date = ''backups/carteira_20261104.parquet''"
proof -
  have "globals other_key_state ''BUCKET_NAME'' = None"
    by (simp add: other_key_state_def demo_loaded_def demo_state_def)
  from save_to_s3_handler_unbound [OF this, of demo_env demo_date]
  show ?thesis
    by (simp add: other_key_state_def demo_loaded_def demo_state_def backup_key_of_def
        demo_strftime spec_backup_key_def key_base_def key_ext_def key_filename_def)
qed

text \<open>
  The messages of a remote save, run (on C7). In the script's namespace the pass ends
  with the error of C5 and no success message: no pass of the program has a remote save
  that succeeds. Only in a namespace that binds \<open>BUCKET_NAME\<close>, which no pass
  produces, do the copy and the write succeed; there the success message and the
  informational message both show the primary address \<open>s3://bucket/key\<close>, and the
  backup key the handler computed is not shown.
\<close>

lemma remote_save_messages_at_demo:
  "messages (snd (run_pass demo_secrets demo_ui_keep demo_env demo_date demo_state)) =
     [Sidebar_success ''Loaded from S3: s3://controle-de-processos/Controle_de_Processos.parquet'',
      St_error ''Error saving to S3: name 'BUCKET_NAME' is not defined''] \<and>
   messages (snd (save_to_s3_handler demo_env demo_date demo_loaded_bound)) =
     [St_success ''Saved to S3: s3://controle-de-processos/Controle_de_Processos.parquet'',
      St_info ''Backup created at s3://controle-de-processos/Controle_de_Processos.parquet''] \<and>
   globals (snd (save_to_s3_handler demo_env demo_date demo_loaded_bound)) ''backup_key'' =
     Some (Str ''backups/Controle_de_Processos_20261104.parquet'')"
proof -
  define s1 where "s1 = snd (upto_save demo_secrets demo_ui_keep demo_env (fresh demo_state))"
  have reach: "upto_save demo_secrets demo_ui_keep demo_env (fresh demo_state) = (Inr (), s1)"
    by (simp add: s1_def demo_keep_upto_save)
  have unbound: "globals s1 ''BUCKET_NAME'' = None"
    by (simp add: s1_def demo_keep_upto_save)
  have shown: "messages s1 =
     [Sidebar_success ''Loaded from S3: s3://controle-de-processos/Controle_de_Processos.parquet'']"
    by (simp add: s1_def demo_keep_upto_save)
  have clicked: "save_option demo_ui_keep = ''S3''" "save_s3_clicked demo_ui_keep"
    by (simp_all add: demo_ui_keep_def demo_ui_def)
  have "script demo_secrets demo_ui_keep demo_env demo_date (fresh demo_state) =
          save_dispatcher demo_ui_keep demo_env demo_date s1"
    using reach by (simp add: script_upto_save seq_Inr)
  then have "messages (snd (run_pass demo_secrets demo_ui_keep demo_env demo_date demo_state)) =
     [Sidebar_success ''Loaded from S3: s3://controle-de-processos/Controle_de_Processos.parquet'',
      St_error ''Error saving to S3: name 'BUCKET_NAME' is not defined'']"
    by (simp add: run_pass_def save_dispatcher_s3_unbound [OF clicked unbound] shown)
  then show ?thesis
    by (simp add: demo_bound_run backup_key_of_def demo_strftime)
qed

text \<open>
  C9. The save section never raises, for either destination and whether or not a save
  button was activated, and it leaves \<open>edited_df\<close> bound as it was. When a save is
  activated, the section shows exactly one report after the messages already on the
  page: the error message of that destination with the text of the exception, or the
  success message(s). Whatever the body of the \<open>try\<close> raises is an \<open>Exception\<close>
  (never a \<open>StopException\<close>), and the section then returns normally having shown the
  error message with the text of that exception. In particular: a remote save shows
  the error when \<open>BUCKET_NAME\<close> is unbound, when the backup copy fails (the call
  fails or the object is missing; the objects of S3 are then unchanged) and when the
  write fails (the table does not encode, or \<open>put_object\<close> fails); a local save shows
  the error when the table does not encode or the file cannot be written, and the disk
  is then unchanged.
\<close>

theorem save_errors_are_caught_and_reported:
  "fst (save_dispatcher u x now s) = Inr () \<and>
   globals (snd (save_dispatcher u x now s)) ''edited_df'' = globals s ''edited_df'' \<and>
   (\<forall>e s1. save_s3_try_body x now s = (Inl e, s1) \<longrightarrow>
      (\<exists>e'. e = Exception e' \<and>
            save_to_s3_handler x now s =
              (Inr (), s1\<lparr>messages := messages s @
                 [St_error (''Error saving to S3: '' @ str_exception e')]\<rparr>))) \<and>
   (\<forall>e s1. save_local_try_body x s = (Inl e, s1) \<longrightarrow>
      (\<exists>e'. e = Exception e' \<and>
            save_locally_handler x s =
              (Inr (), s\<lparr>messages := messages s @
                 [St_error (''Error saving locally: '' @ str_exception e')]\<rparr>))) \<and>
   (save_option u = ''S3'' \<and> save_s3_clicked u \<longrightarrow>
      (\<forall>ex s1.
         save_s3_try_body x now (s\<lparr>globals := (globals s)(''save_option'' \<mapsto> Str ''S3'')\<rparr>) =
           (Inl ex, s1) \<longrightarrow>
         (\<exists>e. ex = Exception e \<and>
              save_dispatcher u x now s =
                (Inr (), s1\<lparr>messages := messages s @
                   [St_error (''Error saving to S3: '' @ str_exception e)]\<rparr>))) \<and>
      ((\<exists>e. messages (snd (save_dispatcher u x now s)) =
              messages s @ [St_error (''Error saving to S3: '' @ str_exception e)]) \<or>
       (\<exists>b k. messages (snd (save_dispatcher u x now s)) =
              messages s @ [St_success (''Saved to S3: s3://'' @ b @ ''/'' @ k),
                            St_info (''Backup created at s3://'' @ b @ ''/'' @ k)])) \<and>
      (globals s ''BUCKET_NAME'' = None \<longrightarrow>
         messages (snd (save_dispatcher u x now s)) =
           messages s @ [St_error ''Error saving to S3: name 'BUCKET_NAME' is not defined''] \<and>
         s3_store (snd (save_dispatcher u x now s)) = s3_store s) \<and>
      (\<forall>d b k e.
         globals s ''BUCKET_NAME'' = Some (Str d) \<and> globals s ''bucket'' = Some (Str b) \<and>
         globals s ''key'' = Some (Str k) \<and>
         (s3_fault x (CopyObject d b k (backup_key_of now)) = Some e \<or>
          s3_fault x (CopyObject d b k (backup_key_of now)) = None \<and> s3_store s (b, k) = None \<and>
            e = ClientError ''NoSuchKey'') \<longrightarrow>
         messages (snd (save_dispatcher u x now s)) =
           messages s @ [St_error (''Error saving to S3: '' @ str_exception e)] \<and>
         s3_store (snd (save_dispatcher u x now s)) = s3_store s) \<and>
      (\<forall>d b k E v e.
         globals s ''BUCKET_NAME'' = Some (Str d) \<and> globals s ''bucket'' = Some (Str b) \<and>
         globals s ''key'' = Some (Str k) \<and> globals s ''edited_df'' = Some (Frame E) \<and>
         s3_fault x (CopyObject d b k (backup_key_of now)) = None \<and>
         s3_store s (b, k) = Some v \<and>
         (to_parquet x E = Inl e \<or>
          (\<exists>body. to_parquet x E = Inr body \<and> s3_fault x (PutObject b k body) = Some e)) \<longrightarrow>
         messages (snd (save_dispatcher u x now s)) =
           messages s @ [St_error (''Error saving to S3: '' @ str_exception e)])) \<and>
   (save_option u \<noteq> ''S3'' \<and> save_local_clicked u \<longrightarrow>
      (\<forall>ex s1.
         save_local_try_body x
           (s\<lparr>globals := (globals s)(''save_option'' \<mapsto> Str (save_option u),
                                      ''save_path'' \<mapsto> Str (save_path u))\<rparr>) = (Inl ex, s1) \<longrightarrow>
         (\<exists>e. ex = Exception e \<and>
              save_dispatcher u x now s =
                (Inr (), s\<lparr>globals := (globals s)(''save_option'' \<mapsto> Str (save_option u),
                                                    ''save_path'' \<mapsto> Str (save_path u)),
                            messages := messages s @
                              [St_error (''Error saving locally: '' @ str_exception e)]\<rparr>))) \<and>
      ((\<exists>e. messages (snd (save_dispatcher u x now s)) =
              messages s @ [St_error (''Error saving locally: '' @ str_exception e)] \<and>
            local_fs (snd (save_dispatcher u x now s)) = local_fs s) \<or>
       messages (snd (save_dispatcher u x now s)) =
              messages s @ [St_success (''Saved locally as '' @ save_path u)]) \<and>
      (\<forall>E e.
         globals s ''edited_df'' = Some (Frame E) \<and>
         (to_parquet x E = Inl e \<or>
          (\<exists>body. to_parquet x E = Inr body) \<and> fs_fault x (save_path u) = Some e) \<longrightarrow>
         messages (snd (save_dispatcher u x now s)) =
           messages s @ [St_error (''Error saving locally: '' @ str_exception e)] \<and>
         local_fs (snd (save_dispatcher u x now s)) = local_fs s))"
proof (intro conjI)
  show "fst (save_dispatcher u x now s) = Inr ()"
    by (simp add: save_dispatcher_frame)
  show "globals (snd (save_dispatcher u x now s)) ''edited_df'' = globals s ''edited_df''"
    by (simp add: save_dispatcher_frame)
  show "\<forall>e s1. save_s3_try_body x now s = (Inl e, s1) \<longrightarrow>
      (\<exists>e'. e = Exception e' \<and>
            save_to_s3_handler x now s =
              (Inr (), s1\<lparr>messages := messages s @
                 [St_error (''Error saving to S3: '' @ str_exception e')]\<rparr>))"
    by (intro allI impI) (rule save_to_s3_handler_reports)
  show "\<forall>e s1. save_local_try_body x s = (Inl e, s1) \<longrightarrow>
      (\<exists>e'. e = Exception e' \<and>
            save_locally_handler x s =
              (Inr (), s\<lparr>messages := messages s @
                 [St_error (''Error saving locally: '' @ str_exception e')]\<rparr>))"
    by (intro allI impI) (rule save_locally_handler_reports)
next
  show "save_option u = ''S3'' \<and> save_s3_clicked u \<longrightarrow>
      (\<forall>ex s1.
         save_s3_try_body x now (s\<lparr>globals := (globals s)(''save_option'' \<mapsto> Str ''S3'')\<rparr>) =
           (Inl ex, s1) \<longrightarrow>
         (\<exists>e. ex = Exception e \<and>
              save_dispatcher u x now s =
                (Inr (), s1\<lparr>messages := messages s @
                   [St_error (''Error saving to S3: '' @ str_exception e)]\<rparr>))) \<and>
      ((\<exists>e. messages (snd (save_dispatcher u x now s)) =
              messages s @ [St_error (''Error saving to S3: '' @ str_exception e)]) \<or>
       (\<exists>b k. messages (snd (save_dispatcher u x now s)) =
              messages s @ [St_success (''Saved to S3: s3://'' @ b @ ''/'' @ k),
                            St_info (''Backup created at s3://'' @ b @ ''/'' @ k)])) \<and>
      (globals s ''BUCKET_NAME'' = None \<longrightarrow>
         messages (snd (save_dispatcher u x now s)) =
           messages s @ [St_error ''Error saving to S3: name 'BUCKET_NAME' is not defined''] \<and>
         s3_store (snd (save_dispatcher u x now s)) = s3_store s) \<and>
      (\<forall>d b k e.
         globals s ''BUCKET_NAME'' = Some (Str d) \<and> globals s ''bucket'' = Some (Str b) \<and>
         globals s ''key'' = Some (Str k) \<and>
         (s3_fault x (CopyObject d b k (backup_key_of now)) = Some e \<or>
          s3_fault x (CopyObject d b k (backup_key_of now)) = None \<and> s3_store s (b, k) = None \<and>
            e = ClientError ''NoSuchKey'') \<longrightarrow>
         messages (snd (save_dispatcher u x now s)) =
           messages s @ [St_error (''Error saving to S3: '' @ str_exception e)] \<and>
         s3_store (snd (save_dispatcher u x now s)) = s3_store s) \<and>
      (\<forall>d b k E v e.
         globals s ''BUCKET_NAME'' = Some (Str d) \<and> globals s ''bucket'' = Some (Str b) \<and>
         globals s ''key'' = Some (Str k) \<and> globals s ''edited_df'' = Some (Frame E) \<and>
         s3_fault x (CopyObject d b k (backup_key_of now)) = None \<and>
         s3_store s (b, k) = Some v \<and>
         (to_parquet x E = Inl e \<or>
          (\<exists>body. to_parquet x E = Inr body \<and> s3_fault x (PutObject b k body) = Some e)) \<longrightarrow>
         messages (snd (save_dispatcher u x now s)) =
           messages s @ [St_error (''Error saving to S3: '' @ str_exception e)])"
  proof (intro impI, elim conjE)
    assume opt: "save_option u = ''S3''" and clicked: "save_s3_clicked u"
    show "(\<forall>ex s1.
         save_s3_try_body x now (s\<lparr>globals := (globals s)(''save_option'' \<mapsto> Str ''S3'')\<rparr>) =
           (Inl ex, s1) \<longrightarrow>
         (\<exists>e. ex = Exception e \<and>
              save_dispatcher u x now s =
                (Inr (), s1\<lparr>messages := messages s @
                   [St_error (''Error saving to S3: '' @ str_exception e)]\<rparr>))) \<and>
      ((\<exists>e. messages (snd (save_dispatcher u x now s)) =
              messages s @ [St_error (''Error saving to S3: '' @ str_exception e)]) \<or>
       (\<exists>b k. messages (snd (save_dispatcher u x now s)) =
              messages s @ [St_success (''Saved to S3: s3://'' @ b @ ''/'' @ k),
                            St_info (''Backup created at s3://'' @ b @ ''/'' @ k)])) \<and>
      (globals s ''BUCKET_NAME'' = None \<longrightarrow>
         messages (snd (save_dispatcher u x now s)) =
           messages s @ [St_error ''Error saving to S3: name 'BUCKET_NAME' is not defined''] \<and>
         s3_store (snd (save_dispatcher u x now s)) = s3_store s) \<and>
      (\<forall>d b k e.
         globals s ''BUCKET_NAME'' = Some (Str d) \<and> globals s ''bucket'' = Some (Str b) \<and>
         globals s ''key'' = Some (Str k) \<and>
         (s3_fault x (CopyObject d b k (backup_key_of now)) = Some e \<or>
          s3_fault x (CopyObject d b k (backup_key_of now)) = None \<and> s3_store s (b, k) = None \<and>
            e = ClientError ''NoSuchKey'') \<longrightarrow>
         messages (snd (save_dispatcher u x now s)) =
           messages s @ [St_error (''Error saving to S3: '' @ str_exception e)] \<and>
         s3_store (snd (save_dispatcher u x now s)) = s3_store s) \<and>
      (\<forall>d b k E v e.
         globals s ''BUCKET_NAME'' = Some (Str d) \<and> globals s ''bucket'' = Some (Str b) \<and>
         globals s ''key'' = Some (Str k) \<and> globals s ''edited_df'' = Some (Frame E) \<and>
         s3_fault x (CopyObject d b k (backup_key_of now)) = None \<and>
         s3_store s (b, k) = Some v \<and>
         (to_parquet x E = Inl e \<or>
          (\<exists>body. to_parquet x E = Inr body \<and> s3_fault x (PutObject b k body) = Some e)) \<longrightarrow>
         messages (snd (save_dispatcher u x now s)) =
           messages s @ [St_error (''Error saving to S3: '' @ str_exception e)])"
    proof (intro conjI)
      show "\<forall>ex s1.
         save_s3_try_body x now (s\<lparr>globals := (globals s)(''save_option'' \<mapsto> Str ''S3'')\<rparr>) =
           (Inl ex, s1) \<longrightarrow>
         (\<exists>e. ex = Exception e \<and>
              save_dispatcher u x now s =
                (Inr (), s1\<lparr>messages := messages s @
                   [St_error (''Error saving to S3: '' @ str_exception e)]\<rparr>))"
        by (intro allI impI) (rule save_dispatcher_s3_reports [OF opt clicked])
      show "(\<exists>e. messages (snd (save_dispatcher u x now s)) =
              messages s @ [St_error (''Error saving to S3: '' @ str_exception e)]) \<or>
       (\<exists>b k. messages (snd (save_dispatcher u x now s)) =
              messages s @ [St_success (''Saved to S3: s3://'' @ b @ ''/'' @ k),
                            St_info (''Backup created at s3://'' @ b @ ''/'' @ k)])"
        by (rule save_dispatcher_s3_outcome [OF opt clicked])
      show "globals s ''BUCKET_NAME'' = None \<longrightarrow>
         messages (snd (save_dispatcher u x now s)) =
           messages s @ [St_error ''Error saving to S3: name 'BUCKET_NAME' is not defined''] \<and>
         s3_store (snd (save_dispatcher u x now s)) = s3_store s"
        by (intro impI) (simp add: save_dispatcher_s3_unbound [OF opt clicked])
      show "\<forall>d b k e.
         globals s ''BUCKET_NAME'' = Some (Str d) \<and> globals s ''bucket'' = Some (Str b) \<and>
         globals s ''key'' = Some (Str k) \<and>
         (s3_fault x (CopyObject d b k (backup_key_of now)) = Some e \<or>
          s3_fault x (CopyObject d b k (backup_key_of now)) = None \<and> s3_store s (b, k) = None \<and>
            e = ClientError ''NoSuchKey'') \<longrightarrow>
         messages (snd (save_dispatcher u x now s)) =
           messages s @ [St_error (''Error saving to S3: '' @ str_exception e)] \<and>
         s3_store (snd (save_dispatcher u x now s)) = s3_store s"
        by (intro allI impI, elim conjE) (rule save_dispatcher_s3_copy_fails [OF opt clicked])
      show "\<forall>d b k E v e.
         globals s ''BUCKET_NAME'' = Some (Str d) \<and> globals s ''bucket'' = Some (Str b) \<and>
         globals s ''key'' = Some (Str k) \<and> globals s ''edited_df'' = Some (Frame E) \<and>
         s3_fault x (CopyObject d b k (backup_key_of now)) = None \<and>
         s3_store s (b, k) = Some v \<and>
         (to_parquet x E = Inl e \<or>
          (\<exists>body. to_parquet x E = Inr body \<and> s3_fault x (PutObject b k body) = Some e)) \<longrightarrow>
         messages (snd (save_dispatcher u x now s)) =
           messages s @ [St_error (''Error saving to S3: '' @ str_exception e)]"
        by (intro allI impI, elim conjE)
           (rule save_dispatcher_s3_write_fails [OF opt clicked, THEN conjunct1])
    qed
  qed
next
  show "save_option u \<noteq> ''S3'' \<and> save_local_clicked u \<longrightarrow>
      (\<forall>ex s1.
         save_local_try_body x
           (s\<lparr>globals := (globals s)(''save_option'' \<mapsto> Str (save_option u),
                                      ''save_path'' \<mapsto> Str (save_path u))\<rparr>) = (Inl ex, s1) \<longrightarrow>
         (\<exists>e. ex = Exception e \<and>
              save_dispatcher u x now s =
                (Inr (), s\<lparr>globals := (globals s)(''save_option'' \<mapsto> Str (save_option u),
                                                    ''save_path'' \<mapsto> Str (save_path u)),
                            messages := messages s @
                              [St_error (''Error saving locally: '' @ str_exception e)]\<rparr>))) \<and>
      ((\<exists>e. messages (snd (save_dispatcher u x now s)) =
              messages s @ [St_error (''Error saving locally: '' @ str_exception e)] \<and>
            local_fs (snd (save_dispatcher u x now s)) = local_fs s) \<or>
       messages (snd (save_dispatcher u x now s)) =
              messages s @ [St_success (''Saved locally as '' @ save_path u)]) \<and>
      (\<forall>E e.
         globals s ''edited_df'' = Some (Frame E) \<and>
         (to_parquet x E = Inl e \<or>
          (\<exists>body. to_parquet x E = Inr body) \<and> fs_fault x (save_path u) = Some e) \<longrightarrow>
         messages (snd (save_dispatcher u x now s)) =
           messages s @ [St_error (''Error saving locally: '' @ str_exception e)] \<and>
         local_fs (snd (save_dispatcher u x now s)) = local_fs s)"
  proof (intro impI, elim conjE, intro conjI)
    assume opt: "save_option u \<noteq> ''S3''" and clicked: "save_local_clicked u"
    show "\<forall>ex s1.
         save_local_try_body x
           (s\<lparr>globals := (globals s)(''save_option'' \<mapsto> Str (save_option u),
                                      ''save_path'' \<mapsto> Str (save_path u))\<rparr>) = (Inl ex, s1) \<longrightarrow>
         (\<exists>e. ex = Exception e \<and>
              save_dispatcher u x now s =
                (Inr (), s\<lparr>globals := (globals s)(''save_option'' \<mapsto> Str (save_option u),
                                                    ''save_path'' \<mapsto> Str (save_path u)),
                            messages := messages s @
                              [St_error (''Error saving locally: '' @ str_exception e)]\<rparr>))"
      by (intro allI impI) (rule save_dispatcher_local_reports [OF opt clicked])
    show "(\<exists>e. messages (snd (save_dispatcher u x now s)) =
              messages s @ [St_error (''Error saving locally: '' @ str_exception e)] \<and>
            local_fs (snd (save_dispatcher u x now s)) = local_fs s) \<or>
       messages (snd (save_dispatcher u x now s)) =
              messages s @ [St_success (''Saved locally as '' @ save_path u)]"
      by (rule save_dispatcher_local_outcome [OF opt clicked])
    show "\<forall>E e.
         globals s ''edited_df'' = Some (Frame E) \<and>
         (to_parquet x E = Inl e \<or>
          (\<exists>body. to_parquet x E = Inr body) \<and> fs_fault x (save_path u) = Some e) \<longrightarrow>
         messages (snd (save_dispatcher u x now s)) =
           messages s @ [St_error (''Error saving locally: '' @ str_exception e)] \<and>
         local_fs (snd (save_dispatcher u x now s)) = local_fs s"
      by (intro allI impI, elim conjE) (rule save_dispatcher_local_fails [OF opt clicked])
  qed
qed

theorem save_errors_are_caught_and_reported_witness:
  "fst (save_dispatcher demo_ui_local demo_env_readonly_disk demo_date demo_loaded) = Inr () \<and>
   messages (snd (save_dispatcher demo_ui_local demo_env_readonly_disk demo_date demo_loaded)) =
     [St_error ''Error saving locally: [Errno 13] Permission denied''] \<and>
   local_fs (snd (save_dispatcher demo_ui_local demo_env_readonly_disk demo_date demo_loaded)) =
     Map.empty \<and>
   globals (snd (save_dispatcher demo_ui_local demo_env_readonly_disk demo_date demo_loaded))
     ''edited_df'' = Some (Frame (delete_last_row demo_table)) \<and>
   fst (save_dispatcher demo_ui demo_env demo_date demo_loaded) = Inr () \<and>
   messages (snd (save_dispatcher demo_ui demo_env demo_date demo_loaded)) =
     [St_error ''Error saving to S3: name 'BUCKET_NAME' is not defined''] \<and>
   s3_store (snd (save_dispatcher demo_ui demo_env demo_date demo_loaded)) =
     s3_store demo_loaded \<and>
   save_locally_handler demo_env_readonly_disk demo_local_state =
     (Inr (), demo_local_state\<lparr>messages :=
        [St_error ''Error saving locally: [Errno 13] Permission denied'']\<rparr>)"
proof -
  note local = save_errors_are_caught_and_reported
    [of demo_ui_local demo_env_readonly_disk demo_date demo_loaded]
  note remote = save_errors_are_caught_and_reported
    [of demo_ui demo_env demo_date demo_loaded]
  note handler = save_errors_are_caught_and_reported
    [of demo_ui_local demo_env_readonly_disk demo_date demo_local_state]
  have lopt: "save_option demo_ui_local \<noteq> ''S3'' \<and> save_local_clicked demo_ui_local"
    by (simp add: demo_ui_local_def demo_ui_def)
  have path: "save_path demo_ui_local = ''Controle_de_Processos_edited.parquet''"
    by (simp add: demo_ui_local_def demo_ui_def)
  have ropt: "save_option demo_ui = ''S3'' \<and> save_s3_clicked demo_ui"
    by (simp add: demo_ui_def)
  have st: "globals demo_loaded ''edited_df'' = Some (Frame (delete_last_row demo_table))"
    "globals demo_loaded ''BUCKET_NAME'' = None" "messages demo_loaded = []"
    "local_fs demo_loaded = Map.empty"
    by (simp_all add: demo_loaded_def demo_state_def)
  have cause: "globals demo_loaded ''edited_df'' = Some (Frame (delete_last_row demo_table)) \<and>
      (to_parquet demo_env_readonly_disk (delete_last_row demo_table) =
         Inl (OSError ''[Errno 13] Permission denied'') \<or>
       (\<exists>body. to_parquet demo_env_readonly_disk (delete_last_row demo_table) = Inr body) \<and>
         fs_fault demo_env_readonly_disk (save_path demo_ui_local) =
           Some (OSError ''[Errno 13] Permission denied''))"
    by (simp add: st path demo_env_readonly_disk_def demo_env_def demo_table_def
        delete_last_row_def)
  note local_part = local [THEN conjunct2, THEN conjunct2, THEN conjunct2, THEN conjunct2,
      THEN conjunct2, THEN mp, OF lopt]
  note remote_part = remote [THEN conjunct2, THEN conjunct2, THEN conjunct2, THEN conjunct2,
      THEN conjunct1, THEN mp, OF ropt]
  from local_part [THEN conjunct2, THEN conjunct2, THEN spec, THEN spec, THEN mp, OF cause]
  have l:
    "messages (snd (save_dispatcher demo_ui_local demo_env_readonly_disk demo_date demo_loaded)) =
       [St_error ''Error saving locally: [Errno 13] Permission denied'']"
    "local_fs (snd (save_dispatcher demo_ui_local demo_env_readonly_disk demo_date demo_loaded)) =
       Map.empty"
    by (simp_all add: st)
  from local [THEN conjunct1] local [THEN conjunct2, THEN conjunct1] have l2:
    "fst (save_dispatcher demo_ui_local demo_env_readonly_disk demo_date demo_loaded) = Inr ()"
    "globals (snd (save_dispatcher demo_ui_local demo_env_readonly_disk demo_date demo_loaded))
       ''edited_df'' = Some (Frame (delete_last_row demo_table))"
    by (simp_all add: st)
  from remote_part [THEN conjunct2, THEN conjunct2, THEN conjunct1, THEN mp, OF st(2)]
  have r:
    "messages (snd (save_dispatcher demo_ui demo_env demo_date demo_loaded)) =
       [St_error ''Error saving to S3: name 'BUCKET_NAME' is not defined'']"
    "s3_store (snd (save_dispatcher demo_ui demo_env demo_date demo_loaded)) = s3_store demo_loaded"
    by (simp_all add: st)
  have r2: "fst (save_dispatcher demo_ui demo_env demo_date demo_loaded) = Inr ()"
    by (rule remote [THEN conjunct1])
  from handler [THEN conjunct2, THEN conjunct2, THEN conjunct2, THEN conjunct1,
      THEN spec, THEN spec, THEN mp, OF demo_local_body]
  have h: "save_locally_handler demo_env_readonly_disk demo_local_state =
     (Inr (), demo_local_state\<lparr>messages :=
        [St_error ''Error saving locally: [Errno 13] Permission denied'']\<rparr>)"
    by (auto simp: demo_local_state_def demo_loaded_def demo_state_def)
  from l l2 r r2 h show ?thesis by (intro conjI)
qed

section \<open>The cache of the remote read\<close>

text \<open>
  C10. A remote load that misses the cache and succeeds enters the table it read
  under (bucket, key). From then on, through any session (passes with any inputs, and
  objects overwritten in the bucket in between), the entry stays as it is, and a remote
  load returns that first table and makes no call on S3, whatever the bucket now holds.
\<close>

theorem cached_read_is_never_refreshed:
  assumes remote: "mode u = ''Use S3 file''"
    and addr: "b = BUCKET_NAME_secret c" "k = PARQUET_KEY_secret c"
  shows "(cache s0 (b, k) = None \<and> s3_fault x (GetObject b k) = None \<and>
          s3_store s0 (b, k) = Some body \<and> read_parquet x body = Inr t \<longrightarrow>
            cache (snd (run_pass c u x now s0)) (b, k) = Some t) \<and>
         (cache s (b, k) = Some t \<longrightarrow>
            cache (run_session c evs s) (b, k) = Some t \<and>
            (\<exists>s'. run_pass c u x now (run_session c evs s) = (Completed, s') \<and>
                  globals s' ''df'' = Some (Frame t) \<and>
                  s3_log s' = s3_log (run_session c evs s) \<and>
                  cache s' (b, k) = Some t))"
proof (intro conjI impI)
  assume "cache s0 (b, k) = None \<and> s3_fault x (GetObject b k) = None \<and>
          s3_store s0 (b, k) = Some body \<and> read_parquet x body = Inr t"
  with upto_load_cache_miss [of u s0 c x body t] remote addr
  obtain s1 where "upto_load c u x (fresh s0) = (Inr (), s1)" "cache s1 (b, k) = Some t"
    by auto
  with run_pass_after_load [of c u x s0 s1 now]
  show "cache (snd (run_pass c u x now s0)) (b, k) = Some t" by auto
next
  assume hit: "cache s (b, k) = Some t"
  then show kept: "cache (run_session c evs s) (b, k) = Some t"
    by (rule run_session_cache)
  let ?s = "run_session c evs s"
  from upto_load_cache_hit [of u ?s c t x] remote addr kept
  obtain s1 where s1: "upto_load c u x (fresh ?s) = (Inr (), s1)"
    "globals s1 ''df'' = Some (Frame t)" "s3_log s1 = s3_log ?s"
    by auto
  from run_pass_after_load [OF s1(1), of now] obtain s' where
    "run_pass c u x now ?s = (Completed, s')" "globals s' ''df'' = globals s1 ''df''"
    "s3_log s' = s3_log s1" "cache s' = cache s1"
    by blast
  moreover from upto_load_frame [OF s1(1)] kept have "cache s1 (b, k) = Some t" by blast
  ultimately show "\<exists>s'. run_pass c u x now ?s = (Completed, s') \<and>
                  globals s' ''df'' = Some (Frame t) \<and> s3_log s' = s3_log ?s \<and>
                  cache s' (b, k) = Some t"
    using s1 by simp
qed

theorem cached_read_is_never_refreshed_witness:
  "cache (snd (run_pass demo_secrets demo_ui_keep demo_env demo_date demo_state))
     (''controle-de-processos'', ''Controle_de_Processos.parquet'') = Some demo_table \<and>
   (\<exists>s'. run_pass demo_secrets demo_ui_keep demo_env demo_date
           (run_session demo_secrets
              [Rerun demo_ui_keep demo_env demo_date,
               Overwrite ''controle-de-processos'' ''Controle_de_Processos.parquet''
                 ''PAR1-two-rows'']
              demo_state) = (Completed, s') \<and>
         globals s' ''df'' = Some (Frame demo_table) \<and>
         s3_log s' =
           s3_log (run_session demo_secrets
              [Rerun demo_ui_keep demo_env demo_date,
               Overwrite ''controle-de-processos'' ''Controle_de_Processos.parquet''
                 ''PAR1-two-rows'']
              demo_state)) \<and>
   s3_store (run_session demo_secrets
              [Rerun demo_ui_keep demo_env demo_date,
               Overwrite ''controle-de-processos'' ''Controle_de_Processos.parquet''
                 ''PAR1-two-rows'']
              demo_state)
     (''controle-de-processos'', ''Controle_de_Processos.parquet'') = Some ''PAR1-two-rows''"
proof -
  let ?b = "''controle-de-processos''" and ?k = "''Controle_de_Processos.parquet''"
  let ?s = "snd (run_pass demo_secrets demo_ui_keep demo_env demo_date demo_state)"
  have remote: "mode demo_ui_keep = ''Use S3 file''"
    by (simp add: demo_ui_keep_def demo_ui_def)
  have addr: "?b = BUCKET_NAME_secret demo_secrets" "?k = PARQUET_KEY_secret demo_secrets"
    by (simp_all add: demo_secrets_def)
  have first: "cache demo_state (?b, ?k) = None \<and> s3_fault demo_env (GetObject ?b ?k) = None \<and>
      s3_store demo_state (?b, ?k) = Some ''PAR1-three-rows'' \<and>
      read_parquet demo_env ''PAR1-three-rows'' = Inr demo_table"
    by (simp add: demo_state_def demo_env_def)
  note inst = cached_read_is_never_refreshed [OF remote addr,
      of demo_state demo_env "''PAR1-three-rows''" demo_table demo_date "?s"
         "[Overwrite ?b ?k ''PAR1-two-rows'']"]
  from inst first have cached: "cache ?s (?b, ?k) = Some demo_table" by blast
  with inst have "\<exists>s'. run_pass demo_secrets demo_ui_keep demo_env demo_date
           (run_session demo_secrets [Overwrite ?b ?k ''PAR1-two-rows''] ?s) = (Completed, s') \<and>
         globals s' ''df'' = Some (Frame demo_table) \<and>
         s3_log s' = s3_log (run_session demo_secrets [Overwrite ?b ?k ''PAR1-two-rows''] ?s)"
    by blast
  with cached show ?thesis by simp
qed

end
